theory Spec2Isabelle
  imports Main "HOL-Library.Sublist" "HOL-Library.AList" "HOL-Library.Multiset"
begin

section \<open>swampdb: a document store on top of PostgreSQL\<close>

text \<open>
  The module \<^verbatim>\<open>src/database.ts\<close> is a facade: every public operation builds the text of
  one SQL statement, hands it with its bound values to the execution layer
  (\<^verbatim>\<open>this.pg.query\<close>) and post-processes the rows or the exception that come back.
  The embedding follows that structure:
  \<^item> the statement texts are strings, spliced together as the template literals do;
  \<^item> the execution layer is a parameter \<open>pg\<close> of every operation: a function from the
    statement text, the bound values and the state of the database to either an
    exception or a list of rows, and the next state;
  \<^item> an exception is a value of a sum type (\<open>Inl\<close>), and every \<^verbatim>\<open>try\<close>/\<^verbatim>\<open>catch\<close> and
    every \<^verbatim>\<open>throw\<close> of the source is a branch of the model;
  \<^item> \<^verbatim>\<open>await\<close> is sequencing: the facade holds no state of its own, so an operation is
    a function from the database state to a result and the next database state.
\<close>

subsection \<open>Values\<close>

text \<open>The JSON values a \<^verbatim>\<open>jsonb\<close> column and a bound parameter hold.\<close>

datatype json =
    JNull
  | JBool bool
  | JNum int
  | JStr string
  | JArr "json list"
  | JObj "(string \<times> json) list"

text \<open>
  The second argument of \<^verbatim>\<open>pg.query\<close>: an object of named values, \<^verbatim>\<open>{ id }\<close>,
  \<^verbatim>\<open>{ criteria }\<close>, \<^verbatim>\<open>{ body }\<close>, \<^verbatim>\<open>{ id, body }\<close> or \<^verbatim>\<open>{}\<close>. The statement refers to
  them as \<^verbatim>\<open>$[name]\<close>.
\<close>

type_synonym params = "(string \<times> json) list"

text \<open>
  What \<^verbatim>\<open>pg.query\<close> throws. The source reads only \<^verbatim>\<open>e.code\<close>; an exception without
  that property has \<open>code = None\<close>.
\<close>

record pg_error =
  code :: "string option"
  message :: string

text \<open>\<^verbatim>\<open>Postgres.tableDoesNotExist\<close> of \<^verbatim>\<open>src/postgres.ts\<close>.\<close>

definition tableDoesNotExist :: string where
  "tableDoesNotExist = ''42P01''"

text \<open>
  What an operation of the facade can throw: an exception of the execution layer,
  passed on as it is, or the module's own \<^verbatim>\<open>MissingRecordError\<close> with its
  \<^verbatim>\<open>collection\<close> and \<^verbatim>\<open>criteria\<close> fields.
\<close>

datatype error =
    PgError pg_error
  | MissingRecordError string json

text \<open>The execution layer: \<^verbatim>\<open>this.pg.query(query, params)\<close>.\<close>

type_synonym ('s, 'r) pg = "string \<Rightarrow> params \<Rightarrow> 's \<Rightarrow> (pg_error + 'r list) \<times> 's"

subsection \<open>Statement texts\<close>

text \<open>
  The tag \<^verbatim>\<open>sql\<close> of the \<^verbatim>\<open>typedtext\<close> package marks a template literal as SQL text.
  The package is no part of the module; the tag is taken to do what an untagged
  template literal does: the text is the literal's pieces with the interpolated values
  between them. The line breaks and the indentation of the source are part of the
  text. \<^verbatim>\<open>propsToColumns\<close> uses an untagged literal.
\<close>

text \<open>\<^verbatim>\<open>propsToColumns\<close>: \<open>None\<close> is \<^verbatim>\<open>undefined\<close>. An empty array is not falsy in
  JavaScript, so \<^verbatim>\<open>!props\<close> holds for the absent argument only.\<close>

fun join :: "string \<Rightarrow> string list \<Rightarrow> string" where
  "join sep [] = []"
| "join sep [x] = x"
| "join sep (x # y # ys) = x @ sep @ join sep (y # ys)"

definition propColumn :: "string \<Rightarrow> string" where
  \<open>propColumn prop =
     ''\<newline>    '' @ [CHR 0x27] @ prop @ [CHR 0x27] @ '', body->'' @ [CHR 0x27] @ prop @ [CHR 0x27] @ ''\<newline>  ''\<close>

definition propsToColumns :: "string list option \<Rightarrow> string" where
  \<open>propsToColumns props =
     (case props of
        None \<Rightarrow> ''*''
      | Some ps \<Rightarrow> ''jsonb_build_object('' @ join '', '' (map propColumn ps) @ '') "body"'')\<close>

definition tryGet_sql :: "string \<Rightarrow> string \<Rightarrow> string" where
  \<open>tryGet_sql columns collection =
     ''\<newline>      select id, created, updated, '' @ columns @
     ''\<newline>      from '' @ collection @
     ''\<newline>      where id = $[id]\<newline>      limit 1\<newline>    ''\<close>

definition all_sql :: "string \<Rightarrow> string" where
  \<open>all_sql collection =
     ''\<newline>      select *\<newline>      from '' @ collection @
     ''\<newline>      order by id asc\<newline>    ''\<close>

definition find_sql :: "string \<Rightarrow> string" where
  \<open>find_sql collection =
     ''\<newline>      select *\<newline>      from '' @ collection @
     ''\<newline>      where body @> $[criteria]\<newline>      order by id asc\<newline>    ''\<close>

definition tryFindOne_sql :: "string \<Rightarrow> string" where
  \<open>tryFindOne_sql collection =
     ''\<newline>      select *\<newline>      from '' @ collection @
     ''\<newline>      where body @> $[criteria]\<newline>      limit 1\<newline>    ''\<close>

definition insert_sql :: "string \<Rightarrow> string" where
  \<open>insert_sql collection =
     ''\<newline>      insert into '' @ collection @
     '' (body)\<newline>      values ($[body])\<newline>      returning *;\<newline>    ''\<close>

definition update_sql :: "string \<Rightarrow> string" where
  \<open>update_sql collection =
     ''\<newline>      update '' @ collection @
     ''\<newline>      set body = ($[body]),\<newline>          updated = now()\<newline>      where id = $[id]\<newline>      returning *;\<newline>    ''\<close>

definition createCollection_sql :: "string \<Rightarrow> string" where
  \<open>createCollection_sql collection =
     ''\<newline>      create table '' @ collection @
     '' (\<newline>        id serial primary key,\<newline>        body jsonb not null,\<newline>        created timestamptz not null default now(),\<newline>        updated timestamptz not null default now()\<newline>      );\<newline>      create index '' @
     collection @ ''_body_idx\<newline>      on '' @ collection @
     ''\<newline>      using gin (body jsonb_path_ops);\<newline>    ''\<close>

text \<open>The statement of the legacy variant's \<^verbatim>\<open>get\<close> (the earlier revision of the module).\<close>

definition legacy_get_sql :: "string \<Rightarrow> string" where
  \<open>legacy_get_sql collection =
     ''\<newline>      select *\<newline>      from '' @ collection @
     ''\<newline>      where id = $[id]\<newline>      limit 1\<newline>    ''\<close>

subsection \<open>The facade\<close>

text \<open>\<^verbatim>\<open>raw\<close>: the statement goes to the execution layer, whatever it throws is thrown.\<close>

definition raw :: "('s, 'r) pg \<Rightarrow> params \<Rightarrow> string \<Rightarrow> 's \<Rightarrow> (error + 'r list) \<times> 's" where
  "raw pg params query s =
     (case pg query params s of
        (Inl e, s') \<Rightarrow> (Inl (PgError e), s')
      | (Inr results, s') \<Rightarrow> (Inr results, s'))"

text \<open>\<^verbatim>\<open>createCollection\<close>: one call with the two statements and no bound values.\<close>

definition createCollection :: "('s, 'r) pg \<Rightarrow> string \<Rightarrow> 's \<Rightarrow> (error + unit) \<times> 's" where
  "createCollection pg collection s =
     (case pg (createCollection_sql collection) [] s of
        (Inl e, s') \<Rightarrow> (Inl (PgError e), s')
      | (Inr _, s') \<Rightarrow> (Inr (), s'))"

text \<open>\<^verbatim>\<open>changeCollection\<close>: ``Creates collection on demand.''\<close>

definition changeCollection ::
  "('s, 'r) pg \<Rightarrow> string \<Rightarrow> params \<Rightarrow> string \<Rightarrow> 's \<Rightarrow> (error + 'r list) \<times> 's" where
  "changeCollection pg collection params query s =
     (case pg query params s of
        (Inr results, s1) \<Rightarrow> (Inr results, s1)
      | (Inl e, s1) \<Rightarrow>
          if code e \<noteq> Some tableDoesNotExist then (Inl (PgError e), s1)
          else (case createCollection pg collection s1 of
                  (Inl e', s2) \<Rightarrow> (Inl e', s2)
                | (Inr _, s2) \<Rightarrow>
                    (case pg query params s2 of
                       (Inl e'', s3) \<Rightarrow> (Inl (PgError e''), s3)
                     | (Inr results, s3) \<Rightarrow> (Inr results, s3))))"

text \<open>\<^verbatim>\<open>queryCollection\<close>: ``Recovers if collection does not yet exist.''\<close>

definition queryCollection ::
  "('s, 'r) pg \<Rightarrow> string \<Rightarrow> params \<Rightarrow> string \<Rightarrow> 's \<Rightarrow> (error + 'r list) \<times> 's" where
  "queryCollection pg collection params query s =
     (case pg query params s of
        (Inr results, s') \<Rightarrow> (Inr results, s')
      | (Inl e, s') \<Rightarrow>
          if code e \<noteq> Some tableDoesNotExist then (Inl (PgError e), s')
          else (Inr [], s'))"

text \<open>\<^verbatim>\<open>results.length ? results[0] : null\<close>; \<open>None\<close> is \<^verbatim>\<open>null\<close>.\<close>

definition firstOrNull :: "'r list \<Rightarrow> 'r option" where
  "firstOrNull results = (case results of [] \<Rightarrow> None | r # _ \<Rightarrow> Some r)"

text \<open>\<^verbatim>\<open>results[0]\<close> with no test of the length: on an empty array it is \<^verbatim>\<open>undefined\<close>,
  here \<open>None\<close>, and nothing is thrown.\<close>

definition index0 :: "'r list \<Rightarrow> 'r option" where
  "index0 results = (case results of [] \<Rightarrow> None | r # _ \<Rightarrow> Some r)"

definition tryGet ::
  "('s, 'r) pg \<Rightarrow> string \<Rightarrow> int \<Rightarrow> string list option \<Rightarrow> 's \<Rightarrow> (error + 'r option) \<times> 's" where
  "tryGet pg collection i props s =
     (let columns = propsToColumns props in
      case queryCollection pg collection [(''id'', JNum i)] (tryGet_sql columns collection) s of
        (Inl e, s') \<Rightarrow> (Inl e, s')
      | (Inr results, s') \<Rightarrow> (Inr (firstOrNull results), s'))"

definition get ::
  "('s, 'r) pg \<Rightarrow> string \<Rightarrow> int \<Rightarrow> string list option \<Rightarrow> 's \<Rightarrow> (error + 'r) \<times> 's" where
  "get pg collection i props s =
     (case tryGet pg collection i props s of
        (Inl e, s') \<Rightarrow> (Inl e, s')
      | (Inr None, s') \<Rightarrow> (Inl (MissingRecordError collection (JObj [(''id'', JNum i)])), s')
      | (Inr (Some result), s') \<Rightarrow> (Inr result, s'))"

definition all :: "('s, 'r) pg \<Rightarrow> string \<Rightarrow> 's \<Rightarrow> (error + 'r list) \<times> 's" where
  "all pg collection s = queryCollection pg collection [] (all_sql collection) s"

definition find' ::
  "('s, 'r) pg \<Rightarrow> string \<Rightarrow> (string \<times> json) list \<Rightarrow> 's \<Rightarrow> (error + 'r list) \<times> 's" where
  "find' pg collection criteria s =
     queryCollection pg collection [(''criteria'', JObj criteria)] (find_sql collection) s"

definition tryFindOne ::
  "('s, 'r) pg \<Rightarrow> string \<Rightarrow> (string \<times> json) list \<Rightarrow> 's \<Rightarrow> (error + 'r option) \<times> 's" where
  "tryFindOne pg collection criteria s =
     (case queryCollection pg collection [(''criteria'', JObj criteria)]
             (tryFindOne_sql collection) s of
        (Inl e, s') \<Rightarrow> (Inl e, s')
      | (Inr results, s') \<Rightarrow> (Inr (firstOrNull results), s'))"

definition findOne ::
  "('s, 'r) pg \<Rightarrow> string \<Rightarrow> (string \<times> json) list \<Rightarrow> 's \<Rightarrow> (error + 'r) \<times> 's" where
  "findOne pg collection criteria s =
     (case tryFindOne pg collection criteria s of
        (Inl e, s') \<Rightarrow> (Inl e, s')
      | (Inr None, s') \<Rightarrow> (Inl (MissingRecordError collection (JObj criteria)), s')
      | (Inr (Some result), s') \<Rightarrow> (Inr result, s'))"

definition insert' ::
  "('s, 'r) pg \<Rightarrow> string \<Rightarrow> json \<Rightarrow> 's \<Rightarrow> (error + 'r option) \<times> 's" where
  "insert' pg collection body s =
     (case changeCollection pg collection [(''body'', body)] (insert_sql collection) s of
        (Inl e, s') \<Rightarrow> (Inl e, s')
      | (Inr results, s') \<Rightarrow> (Inr (index0 results), s'))"

definition update ::
  "('s, 'r) pg \<Rightarrow> string \<Rightarrow> int \<Rightarrow> json \<Rightarrow> 's \<Rightarrow> (error + 'r option) \<times> 's" where
  "update pg collection i body s =
     (case raw pg [(''id'', JNum i), (''body'', body)] (update_sql collection) s of
        (Inl e, s') \<Rightarrow> (Inl e, s')
      | (Inr results, s') \<Rightarrow> (Inr (index0 results), s'))"

text \<open>The legacy variant's \<^verbatim>\<open>get\<close>, which returns \<^verbatim>\<open>Document | null\<close>.\<close>

definition legacy_get ::
  "('s, 'r) pg \<Rightarrow> string \<Rightarrow> int \<Rightarrow> 's \<Rightarrow> (error + 'r option) \<times> 's" where
  "legacy_get pg collection i s =
     (case queryCollection pg collection [(''id'', JNum i)] (legacy_get_sql collection) s of
        (Inl e, s') \<Rightarrow> (Inl e, s')
      | (Inr results, s') \<Rightarrow> (Inr (firstOrNull results), s'))"

subsection \<open>Observing the statements an operation issues\<close>

text \<open>
  An execution layer that behaves as \<open>pg\<close> and keeps, beside the state of \<open>pg\<close>, the
  list of the statements it was given, oldest first.
\<close>

definition traced :: "('s, 'r) pg \<Rightarrow> ('s \<times> (string \<times> params) list, 'r) pg" where
  "traced pg query params = (\<lambda>(s, issued).
     case pg query params s of (r, s') \<Rightarrow> (r, (s', issued @ [(query, params)])))"

text \<open>
  An execution layer that answers from a script, whatever the statement: its state is
  the list of the answers still to give. With the script exhausted it fails with an
  exception that has no code.
\<close>

definition scripted :: "((pg_error + 'r list) list, 'r) pg" where
  "scripted query params script =
     (case script of
        [] \<Rightarrow> (Inl \<lparr>code = None, message = ''script exhausted''\<rparr>, [])
      | r # rs \<Rightarrow> (r, rs))"

text \<open>The statements an operation run on \<open>traced pg\<close> has issued.\<close>

definition issued :: "'a \<times> 's \<times> (string \<times> params) list \<Rightarrow> (string \<times> params) list" where
  "issued out = snd (snd out)"

text \<open>Two exceptions of PostgreSQL: \<^verbatim>\<open>undefined_table\<close> and \<^verbatim>\<open>duplicate_table\<close>.\<close>

definition missing :: pg_error where
  "missing = \<lparr>code = Some ''42P01'', message = ''relation does not exist''\<rparr>"

definition duplicate :: pg_error where
  "duplicate = \<lparr>code = Some ''42P07'', message = ''relation already exists''\<rparr>"

section \<open>The execution layer\<close>

text \<open>
  Modelled from the spec: the execution layer. The database engine behind
  \<^verbatim>\<open>this.pg.query\<close> is an external collaborator and no part of the module; the spec
  (sections 3, 4.1 and 6) says what it does with each statement of the module, and the
  definitions of this section follow those words. The model reads the text of a
  statement, so what it executes is decided by the clauses the module wrote into the
  text. It covers the statements of the module and nothing more: any other text is
  answered with a syntax error.
\<close>

subsection \<open>Stored data\<close>

text \<open>
  Modelled from the spec: a row of a collection's table, with the four columns of the
  creation statement; a table, with the next value of the \<^verbatim>\<open>serial\<close> column; the
  database, with the time that \<^verbatim>\<open>now()\<close> returns. The order of \<open>rows\<close> is the order
  of storage, which means nothing to a caller.
\<close>

record row =
  row_id :: int
  row_body :: json
  row_created :: nat
  row_updated :: nat

record table =
  rows :: "row list"
  serial :: int

record database =
  tables :: "string \<Rightarrow> table option"
  now :: nat

text \<open>
  A row of a result, as the object the driver makes of it and the interface
  \<^verbatim>\<open>Document<Body>\<close> reads it: a property is \<open>None\<close> when the statement selected no
  column of that name.
\<close>

record document =
  doc_id :: "int option"
  doc_created :: "nat option"
  doc_updated :: "nat option"
  doc_body :: "json option"

subsection \<open>Reading a statement\<close>

datatype item =
    Column string
  | Star
  | JsonbBuildObject "(string \<times> string) list" string

datatype condition = NoCondition | IdEquals | BodyContains

datatype statement =
    Select "item list" string condition bool bool
  | InsertBody string
  | UpdateBody string
  | CreateTable string

definition is_space :: "char \<Rightarrow> bool" where
  "is_space ch = (ch = CHR '' '' \<or> ch = CHR ''\<newline>'')"

text \<open>An identifier that needs no quoting and that the engine does not fold to another
  case: lower-case letters, digits and the underscore.\<close>

definition is_ident_char :: "char \<Rightarrow> bool" where
  "is_ident_char ch = (ch \<in> set ''abcdefghijklmnopqrstuvwxyz0123456789_'')"

definition is_identifier :: "string \<Rightarrow> bool" where
  "is_identifier c = (c \<noteq> [] \<and> list_all is_ident_char c)"

fun strip_prefix :: "string \<Rightarrow> string \<Rightarrow> string option" where
  "strip_prefix [] s = Some s"
| "strip_prefix (p # ps) [] = None"
| "strip_prefix (p # ps) (x # xs) = (if p = x then strip_prefix ps xs else None)"

definition read_identifier :: "string \<Rightarrow> (string \<times> string) option" where
  "read_identifier s =
     (let c = takeWhile is_ident_char s
      in if c = [] then None else Some (c, dropWhile is_ident_char s))"

fun split_on :: "char \<Rightarrow> string \<Rightarrow> string list" where
  "split_on d [] = [[]]"
| "split_on d (x # xs) =
     (if x = d then [] # split_on d xs
      else (case split_on d xs of [] \<Rightarrow> [[x]] | l # ls \<Rightarrow> (x # l) # ls))"

text \<open>The lines of a text, without their indentation and without the empty ones.\<close>

definition clauses :: "string \<Rightarrow> string list" where
  "clauses s = filter (\<lambda>l. l \<noteq> []) (map (dropWhile is_space) (split_on CHR ''\<newline>'' s))"

text \<open>After the table of a \<^verbatim>\<open>select\<close>: an optional condition, an optional
  \<^verbatim>\<open>order by id asc\<close>, an optional \<^verbatim>\<open>limit 1\<close>, in this order, a line each.\<close>

definition read_condition :: "string list \<Rightarrow> condition \<times> string list" where
  "read_condition cs =
     (case cs of
        [] \<Rightarrow> (NoCondition, [])
      | x # r \<Rightarrow>
          if x = ''where id = $[id]'' then (IdEquals, r)
          else if x = ''where body @> $[criteria]'' then (BodyContains, r)
          else (NoCondition, cs))"

definition read_keyword :: "string \<Rightarrow> string list \<Rightarrow> bool \<times> string list" where
  "read_keyword k cs =
     (case cs of [] \<Rightarrow> (False, []) | x # r \<Rightarrow> if x = k then (True, r) else (False, cs))"

definition read_select_clauses :: "string list \<Rightarrow> (condition \<times> bool \<times> bool) option" where
  "read_select_clauses cs =
     (case read_condition cs of (w, cs1) \<Rightarrow>
      case read_keyword ''order by id asc'' cs1 of (ordered, cs2) \<Rightarrow>
      case read_keyword ''limit 1'' cs2 of (limited, cs3) \<Rightarrow>
        if cs3 = [] then Some (w, ordered, limited) else None)"

text \<open>
  The arguments of \<^verbatim>\<open>jsonb_build_object\<close>, from the text after its opening parenthesis
  cut at every single quote: a separator, a key, the text \<^verbatim>\<open>, body->\<close>, a key, and so
  on; after the last argument comes the rest of the statement. The separator before
  the first argument is blank, the later ones are a comma among blanks.
\<close>

fun read_fields :: "bool \<Rightarrow> string list \<Rightarrow> ((string \<times> string) list \<times> string) option" where
  "read_fields start [rest] = Some ([], rest)"
| "read_fields start (sep # k # arrow # path # pieces) =
     (if filter (\<lambda>ch. \<not> is_space ch) sep = (if start then [] else '','') \<and> arrow = '', body->''
      then (case read_fields False pieces of
              None \<Rightarrow> None
            | Some (fs, rest) \<Rightarrow> Some ((k, path) # fs, rest))
      else None)"
| "read_fields start pieces = None"

definition read_items :: "string \<Rightarrow> (item list \<times> string) option" where
  \<open>read_items s =
     (case strip_prefix ''*'' s of
        Some r \<Rightarrow> Some ([Star], r)
      | None \<Rightarrow>
         (case strip_prefix ''id, created, updated, '' s of
            None \<Rightarrow> None
          | Some r \<Rightarrow>
             (case strip_prefix ''*'' r of
                Some r' \<Rightarrow>
                  Some ([Column ''id'', Column ''created'', Column ''updated'', Star], r')
              | None \<Rightarrow>
                 (case strip_prefix ''jsonb_build_object('' r of
                    None \<Rightarrow> None
                  | Some r' \<Rightarrow>
                     (case read_fields True (split_on (CHR 0x27) r') of
                        None \<Rightarrow> None
                      | Some (fs, rest) \<Rightarrow>
                         (case strip_prefix '') "body"'' (dropWhile is_space rest) of
                            None \<Rightarrow> None
                          | Some r'' \<Rightarrow>
                              Some ([Column ''id'', Column ''created'', Column ''updated'',
                                     JsonbBuildObject fs ''body''], r'')))))))\<close>

definition read_select :: "string \<Rightarrow> statement option" where
  "read_select s =
     (case read_items s of
        None \<Rightarrow> None
      | Some (items, r) \<Rightarrow>
         (case strip_prefix ''from '' (dropWhile is_space r) of
            None \<Rightarrow> None
          | Some r' \<Rightarrow>
             (case read_identifier r' of
                None \<Rightarrow> None
              | Some (c, tail) \<Rightarrow>
                 (case read_select_clauses (clauses tail) of
                    None \<Rightarrow> None
                  | Some (w, ordered, limited) \<Rightarrow> Some (Select items c w ordered limited)))))"

definition read_insert :: "string \<Rightarrow> statement option" where
  "read_insert s =
     (case read_identifier s of
        None \<Rightarrow> None
      | Some (c, tail) \<Rightarrow>
          if clauses tail = [''(body)'', ''values ($[body])'', ''returning *;'']
          then Some (InsertBody c) else None)"

definition read_update :: "string \<Rightarrow> statement option" where
  "read_update s =
     (case read_identifier s of
        None \<Rightarrow> None
      | Some (c, tail) \<Rightarrow>
          if clauses tail =
               [''set body = ($[body]),'', ''updated = now()'', ''where id = $[id]'',
                ''returning *;'']
          then Some (UpdateBody c) else None)"

definition read_create :: "string \<Rightarrow> statement option" where
  "read_create s =
     (case read_identifier s of
        None \<Rightarrow> None
      | Some (c, tail) \<Rightarrow>
          if clauses tail =
               [''('', ''id serial primary key,'', ''body jsonb not null,'',
                ''created timestamptz not null default now(),'',
                ''updated timestamptz not null default now()'', '');'',
                ''create index '' @ c @ ''_body_idx'', ''on '' @ c,
                ''using gin (body jsonb_path_ops);'']
          then Some (CreateTable c) else None)"

definition read_statement :: "string \<Rightarrow> statement option" where
  "read_statement query =
     (let s = dropWhile is_space query in
      case strip_prefix ''select '' s of
        Some r \<Rightarrow> read_select r
      | None \<Rightarrow>
         (case strip_prefix ''insert into '' s of
            Some r \<Rightarrow> read_insert r
          | None \<Rightarrow>
             (case strip_prefix ''update '' s of
                Some r \<Rightarrow> read_update r
              | None \<Rightarrow>
                 (case strip_prefix ''create table '' s of
                    Some r \<Rightarrow> read_create r
                  | None \<Rightarrow> None))))"

subsection \<open>Executing a statement\<close>

text \<open>Modelled from the spec: the operator \<^verbatim>\<open>->\<close> reads a top-level key of a body;
  \<open>None\<close> is the SQL null of a key that was never set.\<close>

definition json_get :: "json \<Rightarrow> string \<Rightarrow> json option" where
  "json_get b k = (case b of JObj kvs \<Rightarrow> map_of kvs k | _ \<Rightarrow> None)"

text \<open>Modelled from the spec: \<^verbatim>\<open>jsonb_build_object\<close> makes an object of its pairs, a
  later pair replacing an earlier one of the same key, and a SQL null becoming the
  JSON null.\<close>

definition jsonb_build_object :: "(string \<times> json option) list \<Rightarrow> json" where
  "jsonb_build_object kvs =
     JObj (foldl (\<lambda>obj (k, v). AList.update k (case v of None \<Rightarrow> JNull | Some x \<Rightarrow> x) obj)
             [] kvs)"

text \<open>Modelled from the spec (section 3, Criteria): ``every key present in the pattern
  must be present with an equal value in a matching document's body; absent keys are
  unconstrained''. The values under a key are compared as wholes, as these words say.
  The facade binds an object as the pattern on every path; a pattern that is no object
  matches the equal body only.\<close>

definition contains :: "json \<Rightarrow> json \<Rightarrow> bool" where
  "contains b pattern =
     (case pattern of
        JObj criteria \<Rightarrow> list_all (\<lambda>(k, v). json_get b k = Some v) criteria
      | _ \<Rightarrow> b = pattern)"

definition syntax_error :: pg_error where
  "syntax_error = \<lparr>code = Some ''42601'', message = ''syntax error''\<rparr>"

text \<open>What the driver throws when the statement names a value that was not bound.\<close>

definition unbound :: pg_error where
  "unbound = \<lparr>code = None, message = ''property does not exist''\<rparr>"

definition select_rows :: "condition \<Rightarrow> params \<Rightarrow> row list \<Rightarrow> pg_error + row list" where
  "select_rows w params rs =
     (case w of
        NoCondition \<Rightarrow> Inr rs
      | IdEquals \<Rightarrow>
          (case map_of params ''id'' of
             Some (JNum i) \<Rightarrow> Inr (filter (\<lambda>r. row_id r = i) rs)
           | _ \<Rightarrow> Inl unbound)
      | BodyContains \<Rightarrow>
          (case map_of params ''criteria'' of
             Some pattern \<Rightarrow> Inr (filter (\<lambda>r. contains (row_body r) pattern) rs)
           | None \<Rightarrow> Inl unbound))"

text \<open>One item of the select list puts its columns into the object of the result; a
  column selected twice is one property.\<close>

fun assign :: "row \<Rightarrow> document \<Rightarrow> item \<Rightarrow> document" where
  "assign r d (Column n) =
     (if n = ''id'' then d\<lparr>doc_id := Some (row_id r)\<rparr>
      else if n = ''created'' then d\<lparr>doc_created := Some (row_created r)\<rparr>
      else if n = ''updated'' then d\<lparr>doc_updated := Some (row_updated r)\<rparr>
      else if n = ''body'' then d\<lparr>doc_body := Some (row_body r)\<rparr>
      else d)"
| "assign r d Star =
     d\<lparr>doc_id := Some (row_id r), doc_body := Some (row_body r),
        doc_created := Some (row_created r), doc_updated := Some (row_updated r)\<rparr>"
| "assign r d (JsonbBuildObject fs alias) =
     (if alias = ''body''
      then d\<lparr>doc_body :=
               Some (jsonb_build_object (map (\<lambda>(k, path). (k, json_get (row_body r) path)) fs))\<rparr>
      else d)"

definition project :: "item list \<Rightarrow> row \<Rightarrow> document" where
  "project items r =
     foldl (assign r)
       \<lparr>doc_id = None, doc_created = None, doc_updated = None, doc_body = None\<rparr> items"

text \<open>The whole stored document of a row, and the document with the body reduced to the
  keys \<open>ps\<close>.\<close>

definition stored :: "row \<Rightarrow> document" where
  "stored r = \<lparr>doc_id = Some (row_id r), doc_created = Some (row_created r),
               doc_updated = Some (row_updated r), doc_body = Some (row_body r)\<rparr>"

definition projected :: "string list \<Rightarrow> row \<Rightarrow> document" where
  "projected ps r =
     \<lparr>doc_id = Some (row_id r), doc_created = Some (row_created r),
      doc_updated = Some (row_updated r),
      doc_body = Some (jsonb_build_object (map (\<lambda>p. (p, json_get (row_body r) p)) ps))\<rparr>"

text \<open>
  Modelled from the spec: what each statement does (section 4.1). A statement on a
  table that does not exist fails with ``table does not exist'' and changes nothing;
  a \<^verbatim>\<open>select\<close> filters, orders when the text says \<^verbatim>\<open>order by id asc\<close>, cuts after one
  row when it says \<^verbatim>\<open>limit 1\<close>, and changes nothing; an \<^verbatim>\<open>insert\<close> stores the body under
  the next id with both timestamps at the present time; an \<^verbatim>\<open>update\<close> replaces the body
  and \<^verbatim>\<open>updated\<close> of the rows with the id; the creation makes an empty table and fails
  with ``relation already exists'' on a table that exists (section 4.3).
\<close>

fun execute :: "statement \<Rightarrow> params \<Rightarrow> database \<Rightarrow> (pg_error + document list) \<times> database" where
  "execute (Select items c w ordered limited) params db =
     (case tables db c of
        None \<Rightarrow> (Inl missing, db)
      | Some t \<Rightarrow>
         (case select_rows w params (rows t) of
            Inl e \<Rightarrow> (Inl e, db)
          | Inr rs \<Rightarrow>
              (Inr (map (project items)
                     ((if limited then take 1 else (\<lambda>x. x))
                        ((if ordered then sort_key row_id else (\<lambda>x. x)) rs))), db)))"
| "execute (InsertBody c) params db =
     (case tables db c of
        None \<Rightarrow> (Inl missing, db)
      | Some t \<Rightarrow>
         (case map_of params ''body'' of
            None \<Rightarrow> (Inl unbound, db)
          | Some b \<Rightarrow>
              (let r = \<lparr>row_id = serial t, row_body = b,
                        row_created = now db, row_updated = now db\<rparr>
               in (Inr [project [Star] r],
                   db\<lparr>tables := (tables db)(c \<mapsto> t\<lparr>rows := rows t @ [r],
                                                    serial := serial t + 1\<rparr>)\<rparr>))))"
| "execute (UpdateBody c) params db =
     (case tables db c of
        None \<Rightarrow> (Inl missing, db)
      | Some t \<Rightarrow>
         (case (map_of params ''id'', map_of params ''body'') of
            (Some (JNum i), Some b) \<Rightarrow>
              (let rs = map (\<lambda>r. if row_id r = i
                                 then r\<lparr>row_body := b, row_updated := now db\<rparr> else r)
                          (rows t)
               in (Inr (map (project [Star]) (filter (\<lambda>r. row_id r = i) rs)),
                   db\<lparr>tables := (tables db)(c \<mapsto> t\<lparr>rows := rs\<rparr>)\<rparr>))
          | _ \<Rightarrow> (Inl unbound, db)))"
| "execute (CreateTable c) params db =
     (case tables db c of
        Some t \<Rightarrow> (Inl duplicate, db)
      | None \<Rightarrow> (Inr [], db\<lparr>tables := (tables db)(c \<mapsto> \<lparr>rows = [], serial = 1\<rparr>)\<rparr>))"

definition postgres :: "(database, document) pg" where
  "postgres query params db =
     (case read_statement query of
        None \<Rightarrow> (Inl syntax_error, db)
      | Some st \<Rightarrow> execute st params db)"

text \<open>
  Another client of the same database: after each statement of ours, the next action
  of the list is applied to the database.
\<close>

definition interleaved :: "('s, 'r) pg \<Rightarrow> ('s \<times> ('s \<Rightarrow> 's) list, 'r) pg" where
  "interleaved pg query params = (\<lambda>(s, others).
     case pg query params s of
       (r, s') \<Rightarrow> (case others of [] \<Rightarrow> (r, s', []) | f # fs \<Rightarrow> (r, f s', fs)))"

text \<open>The action of another first writer: it provisions the collection.\<close>

definition other_provisions :: "string \<Rightarrow> database \<Rightarrow> database" where
  "other_provisions c db = snd (createCollection postgres c db)"

subsection \<open>Two databases\<close>

text \<open>
  The three documents of the spec's containment example (section 8), stored out of the
  order of their ids; a database whose only table is \<^verbatim>\<open>users\<close> with these rows; and a
  database with no table.
\<close>

definition users :: "row list" where
  "users =
     [\<lparr>row_id = 2, row_body = JObj [(''a'', JNum 1), (''b'', JNum 3)],
       row_created = 5, row_updated = 6\<rparr>,
      \<lparr>row_id = 1, row_body = JObj [(''a'', JNum 1), (''b'', JNum 2)],
       row_created = 4, row_updated = 4\<rparr>,
      \<lparr>row_id = 3, row_body = JObj [(''a'', JNum 2), (''b'', JNum 2)],
       row_created = 7, row_updated = 7\<rparr>]"

definition users_db :: database where
  "users_db = \<lparr>tables = [''users'' \<mapsto> \<lparr>rows = users, serial = 4\<rparr>], now = 9\<rparr>"

definition no_tables :: database where
  "no_tables = \<lparr>tables = Map.empty, now = 9\<rparr>"

section \<open>The statements of the module, as the execution layer reads them\<close>

lemma strip_prefix_append [simp]: "strip_prefix p (p @ s) = Some s"
  by (induction p) simp_all

lemma is_identifier_chars:
  "is_identifier c \<Longrightarrow> x \<in> set c \<Longrightarrow> is_ident_char x"
  by (simp add: is_identifier_def list_all_iff)

lemma read_identifier_append:
  "is_identifier c \<Longrightarrow> \<not> is_ident_char x \<Longrightarrow> read_identifier (c @ x # s) = Some (c, x # s)"
  by (simp add: read_identifier_def is_identifier_def list_all_iff takeWhile_append2 dropWhile_append2)

lemma not_ident_chars [simp]:
  "\<not> is_ident_char CHR ''\<newline>''" "\<not> is_ident_char CHR '' ''" "\<not> is_ident_char (CHR 0x27)"
  by (simp_all add: is_ident_char_def)

lemma split_on_free: "d \<notin> set u \<Longrightarrow> split_on d u = [u]"
  by (induction u) auto

lemma split_on_cut: "d \<notin> set u \<Longrightarrow> split_on d (u @ d # v) = u # split_on d v"
  by (induction u) auto

lemma split_on_nonempty: "split_on d v \<noteq> []"
  by (induction v) (auto split: list.splits)

lemma split_on_glue:
  "d \<notin> set u \<Longrightarrow> split_on d (u @ v) = (u @ hd (split_on d v)) # tl (split_on d v)"
  using split_on_nonempty [of d v] by (induction u) (auto split: list.splits)

lemma identifier_no_newline: "is_identifier c \<Longrightarrow> CHR ''\<newline>'' \<notin> set c"
  using is_identifier_chars not_ident_chars(1) by blast

lemma identifier_no_quote: "is_identifier c \<Longrightarrow> CHR 0x27 \<notin> set c"
  using is_identifier_chars not_ident_chars(3) by blast

lemma read_all_sql:
  "is_identifier c \<Longrightarrow> read_statement (all_sql c) = Some (Select [Star] c NoCondition True False)"
  by (simp add: read_statement_def all_sql_def is_space_def read_select_def read_items_def
      read_identifier_append clauses_def read_select_clauses_def read_condition_def read_keyword_def)

lemma read_find_sql:
  "is_identifier c \<Longrightarrow> read_statement (find_sql c) = Some (Select [Star] c BodyContains True False)"
  by (simp add: read_statement_def find_sql_def is_space_def read_select_def read_items_def
      read_identifier_append clauses_def read_select_clauses_def read_condition_def read_keyword_def)

lemma read_tryFindOne_sql:
  "is_identifier c \<Longrightarrow> read_statement (tryFindOne_sql c) = Some (Select [Star] c BodyContains False True)"
  by (simp add: read_statement_def tryFindOne_sql_def is_space_def read_select_def read_items_def
      read_identifier_append clauses_def read_select_clauses_def read_condition_def read_keyword_def)

lemma read_legacy_get_sql:
  "is_identifier c \<Longrightarrow> read_statement (legacy_get_sql c) = Some (Select [Star] c IdEquals False True)"
  by (simp add: read_statement_def legacy_get_sql_def is_space_def read_select_def read_items_def
      read_identifier_append clauses_def read_select_clauses_def read_condition_def read_keyword_def)

lemma read_insert_sql:
  "is_identifier c \<Longrightarrow> read_statement (insert_sql c) = Some (InsertBody c)"
  by (simp add: read_statement_def insert_sql_def is_space_def read_insert_def
      read_identifier_append clauses_def)

lemma read_update_sql:
  "is_identifier c \<Longrightarrow> read_statement (update_sql c) = Some (UpdateBody c)"
  by (simp add: read_statement_def update_sql_def is_space_def read_update_def
      read_identifier_append clauses_def)

lemma read_tryGet_star:
  "is_identifier c \<Longrightarrow> read_statement (tryGet_sql (propsToColumns None) c) =
     Some (Select [Column ''id'', Column ''created'', Column ''updated'', Star] c IdEquals False True)"
  by (simp add: read_statement_def tryGet_sql_def propsToColumns_def is_space_def read_select_def read_items_def
      read_identifier_append clauses_def read_select_clauses_def read_condition_def read_keyword_def)


lemma read_createCollection_sql:
  assumes "is_identifier c"
  shows "read_statement (createCollection_sql c) = Some (CreateTable c)"
proof -
  have nl: "CHR ''\<newline>'' \<notin> set c" using assms by (rule identifier_no_newline)
  have ne: "c \<noteq> []" using assms by (simp add: is_identifier_def)
  show ?thesis
    using assms nl ne
    by (simp add: read_statement_def createCollection_sql_def is_space_def read_create_def
      read_identifier_append clauses_def split_on_glue)
qed

lemma split_on_field:
  assumes "d \<notin> set a" and "d \<notin> set p" and "d \<notin> set b"
  shows "split_on d (a @ d # p @ d # b @ d # p @ d # r) = a # p # b # p # split_on d r"
  using assms by (simp add: split_on_cut)

lemma propColumn_text:
  "pre @ propColumn p @ r =
     (pre @ ''\<newline>    '') @ CHR 0x27 # p @ CHR 0x27 # '', body->'' @ CHR 0x27 # p @ CHR 0x27 #
       (''\<newline>  '' @ r)"
  by (simp add: propColumn_def)

lemma read_fields_column:
  assumes "CHR 0x27 \<notin> set p" and "CHR 0x27 \<notin> set pre"
    and "filter (\<lambda>ch. \<not> is_space ch) pre = (if start then [] else '','')"
  shows "read_fields start (split_on (CHR 0x27) (pre @ propColumn p @ r)) =
           (case read_fields False (split_on (CHR 0x27) (''\<newline>  '' @ r)) of
              None \<Rightarrow> None
            | Some (fs, rest) \<Rightarrow> Some ((p, p) # fs, rest))"
proof -
  have "split_on (CHR 0x27) (pre @ propColumn p @ r) =
          (pre @ ''\<newline>    '') # p # '', body->'' # p # split_on (CHR 0x27) (''\<newline>  '' @ r)"
    unfolding propColumn_text using assms(1,2) by (intro split_on_field) simp_all
  moreover have "filter (\<lambda>ch. \<not> is_space ch) (pre @ ''\<newline>    '') = (if start then [] else '','')"
    using assms(3) by (simp add: is_space_def)
  ultimately show ?thesis by simp
qed

lemma read_fields_columns:
  assumes "\<forall>p \<in> set ps. CHR 0x27 \<notin> set p" and "CHR 0x27 \<notin> set t" and "ps \<noteq> []"
    and "CHR 0x27 \<notin> set pre" and "filter (\<lambda>ch. \<not> is_space ch) pre = (if start then [] else '','')"
  shows "read_fields start (split_on (CHR 0x27) (pre @ join '', '' (map propColumn ps) @ t)) =
           Some (map (\<lambda>p. (p, p)) ps, ''\<newline>  '' @ t)"
  using assms
proof (induction ps arbitrary: pre start)
  case Nil
  then show ?case by simp
next
  case (Cons p ps)
  have q: "CHR 0x27 \<notin> set p" using Cons.prems(1) by simp
  show ?case
  proof (cases ps)
    case Nil
    have "split_on (CHR 0x27) (''\<newline>  '' @ t) = [''\<newline>  '' @ t]"
      using Cons.prems(2) by (intro split_on_free) simp
    then show ?thesis
      using read_fields_column [OF q Cons.prems(4,5), of t] by (simp add: Nil)
  next
    case (Cons p' ps')
    have ih: "read_fields False (split_on (CHR 0x27) (''\<newline>  , '' @ join '', '' (map propColumn ps) @ t)) =
           Some (map (\<lambda>p. (p, p)) ps, ''\<newline>  '' @ t)"
      using Cons.IH [of "''\<newline>  , ''" False] Cons.prems(1,2) Cons
      by (simp add: is_space_def)
    have "join '', '' (map propColumn (p # ps)) @ t =
            propColumn p @ '', '' @ join '', '' (map propColumn ps) @ t"
      by (simp add: Cons)
    then show ?thesis
      using read_fields_column [OF q Cons.prems(4,5), of "'', '' @ join '', '' (map propColumn ps) @ t"] ih
      by simp
  qed
qed

lemma read_tryGet_columns:
  assumes "is_identifier c" and "\<forall>p \<in> set ps. CHR 0x27 \<notin> set p"
  shows "read_statement (tryGet_sql (propsToColumns (Some ps)) c) =
     Some (Select [Column ''id'', Column ''created'', Column ''updated'',
                   JsonbBuildObject (map (\<lambda>p. (p, p)) ps) ''body''] c IdEquals False True)"
proof -
  let ?t = "'') \"body\"\<newline>      from '' @ c @ ''\<newline>      where id = $[id]\<newline>      limit 1\<newline>    ''"
  have t: "CHR 0x27 \<notin> set ?t"
    using identifier_no_quote [OF assms(1)] by simp
  have fields: "read_fields True (split_on (CHR 0x27) (join '', '' (map propColumn ps) @ ?t)) =
      Some (map (\<lambda>p. (p, p)) ps, (if ps = [] then [] else ''\<newline>  '') @ ?t)"
  proof (cases "ps = []")
    case True
    then show ?thesis using split_on_free [OF t] by simp
  next
    case False
    then show ?thesis
      using read_fields_columns [OF assms(2) t False, of "[]" True] by simp
  qed
  have "read_items (''id, created, updated, '' @ propsToColumns (Some ps) @
           ''\<newline>      from '' @ c @ ''\<newline>      where id = $[id]\<newline>      limit 1\<newline>    '') =
        Some ([Column ''id'', Column ''created'', Column ''updated'',
                   JsonbBuildObject (map (\<lambda>p. (p, p)) ps) ''body''],
              ''\<newline>      from '' @ c @ ''\<newline>      where id = $[id]\<newline>      limit 1\<newline>    '')"
    using fields by (simp add: read_items_def propsToColumns_def is_space_def)
  then show ?thesis
    using assms(1)
    by (simp add: read_statement_def tryGet_sql_def is_space_def read_select_def
      read_identifier_append clauses_def read_select_clauses_def read_condition_def read_keyword_def)
qed


section \<open>The statements of the module, executed\<close>

lemma project_Star: "project [Star] = stored"
  by (rule ext) (simp add: project_def stored_def)

lemma project_envelope_Star:
  "project [Column ''id'', Column ''created'', Column ''updated'', Star] = stored"
  by (rule ext) (simp add: project_def stored_def)

lemma project_envelope_build:
  "project [Column ''id'', Column ''created'', Column ''updated'',
            JsonbBuildObject (map (\<lambda>p. (p, p)) ps) ''body''] = projected ps"
  by (rule ext) (simp add: project_def projected_def comp_def)

lemma missing_code: "code missing = Some tableDoesNotExist"
  by (simp add: missing_def tableDoesNotExist_def)

lemma postgres_all:
  "is_identifier c \<Longrightarrow>
   postgres (all_sql c) [] db =
     (case tables db c of
        None \<Rightarrow> (Inl missing, db)
      | Some t \<Rightarrow> (Inr (map stored (sort_key row_id (rows t))), db))"
  by (simp add: postgres_def read_all_sql select_rows_def project_Star split: option.splits)

lemma postgres_find:
  "is_identifier c \<Longrightarrow>
   postgres (find_sql c) [(''criteria'', pattern)] db =
     (case tables db c of
        None \<Rightarrow> (Inl missing, db)
      | Some t \<Rightarrow>
          (Inr (map stored (sort_key row_id (filter (\<lambda>r. contains (row_body r) pattern) (rows t)))),
           db))"
  by (simp add: postgres_def read_find_sql select_rows_def project_Star split: option.splits)

lemma postgres_tryFindOne:
  "is_identifier c \<Longrightarrow>
   postgres (tryFindOne_sql c) [(''criteria'', pattern)] db =
     (case tables db c of
        None \<Rightarrow> (Inl missing, db)
      | Some t \<Rightarrow>
          (Inr (map stored (take 1 (filter (\<lambda>r. contains (row_body r) pattern) (rows t)))), db))"
  by (simp add: postgres_def read_tryFindOne_sql select_rows_def project_Star split: option.splits)

lemma postgres_legacy_get:
  "is_identifier c \<Longrightarrow>
   postgres (legacy_get_sql c) [(''id'', JNum i)] db =
     (case tables db c of
        None \<Rightarrow> (Inl missing, db)
      | Some t \<Rightarrow> (Inr (map stored (take 1 (filter (\<lambda>r. row_id r = i) (rows t)))), db))"
  by (simp add: postgres_def read_legacy_get_sql select_rows_def project_Star split: option.splits)

lemma postgres_tryGet_star:
  "is_identifier c \<Longrightarrow>
   postgres (tryGet_sql (propsToColumns None) c) [(''id'', JNum i)] db =
     (case tables db c of
        None \<Rightarrow> (Inl missing, db)
      | Some t \<Rightarrow> (Inr (map stored (take 1 (filter (\<lambda>r. row_id r = i) (rows t)))), db))"
  by (simp add: postgres_def read_tryGet_star select_rows_def project_envelope_Star split: option.splits)

lemma postgres_tryGet_columns:
  "is_identifier c \<Longrightarrow> \<forall>p \<in> set ps. CHR 0x27 \<notin> set p \<Longrightarrow>
   postgres (tryGet_sql (propsToColumns (Some ps)) c) [(''id'', JNum i)] db =
     (case tables db c of
        None \<Rightarrow> (Inl missing, db)
      | Some t \<Rightarrow> (Inr (map (projected ps) (take 1 (filter (\<lambda>r. row_id r = i) (rows t)))), db))"
  by (simp add: postgres_def read_tryGet_columns select_rows_def project_envelope_build split: option.splits)

lemma firstOrNull_take: "firstOrNull (map f (take 1 xs)) = map_option f (firstOrNull xs)"
  by (cases xs) (simp_all add: firstOrNull_def)

lemma build_object_map_of:
  "map_of (foldl (\<lambda>obj (k, v). AList.update k (f v) obj) acc (map (\<lambda>p. (p, g p)) ps)) k =
     (if k \<in> set ps then Some (f (g k)) else map_of acc k)"
  by (induction ps arbitrary: acc) (auto simp: update_conv')

lemma build_object_distinct:
  "distinct (map fst acc) \<Longrightarrow>
   distinct (map fst (foldl (\<lambda>obj (k, v). AList.update k (f v) obj) acc (map (\<lambda>p. (p, g p)) ps)))"
  by (induction ps arbitrary: acc) (auto simp: distinct_update)

lemma jsonb_build_object_keys:
  "\<exists>kvs. jsonb_build_object (map (\<lambda>p. (p, json_get b p)) ps) = JObj kvs
       \<and> distinct (map fst kvs)
       \<and> (\<forall>k. map_of kvs k =
            (if k \<in> set ps
             then Some (case json_get b k of None \<Rightarrow> JNull | Some v \<Rightarrow> v) else None))"
  unfolding jsonb_build_object_def
  using build_object_map_of [of "\<lambda>v. case v of None \<Rightarrow> JNull | Some x \<Rightarrow> x" "[]" "json_get b" ps]
    build_object_distinct [of "[]" "\<lambda>v. case v of None \<Rightarrow> JNull | Some x \<Rightarrow> x" "json_get b" ps]
  by simp

section \<open>Properties of the facade\<close>

text \<open>
  The statements that an operation issues are observed by running it on \<open>traced pg\<close>.
  Tracing changes neither what an operation returns nor the state it leaves.
\<close>

lemma traced_queryCollection:
  "queryCollection (traced pg) c p q (s, l) =
     (case queryCollection pg c p q s of (r, s') \<Rightarrow> (r, s', l @ [(q, p)]))"
  by (simp add: queryCollection_def traced_def split: prod.splits sum.splits)

lemma traced_raw:
  "raw (traced pg) p q (s, l) = (case raw pg p q s of (r, s') \<Rightarrow> (r, s', l @ [(q, p)]))"
  by (simp add: raw_def traced_def split: prod.splits sum.splits)

lemma traced_changeCollection:
  "fst (changeCollection (traced pg) c p q (s, l)) = fst (changeCollection pg c p q s)"
  "fst (snd (changeCollection (traced pg) c p q (s, l))) = snd (changeCollection pg c p q s)"
  by (simp_all add: changeCollection_def createCollection_def traced_def
        split: prod.splits sum.splits)

lemma traced_faithful:
  "fst (all (traced pg) c (s, l)) = fst (all pg c s)"
  "fst (snd (all (traced pg) c (s, l))) = snd (all pg c s)"
  "fst (find' (traced pg) c criteria (s, l)) = fst (find' pg c criteria s)"
  "fst (snd (find' (traced pg) c criteria (s, l))) = snd (find' pg c criteria s)"
  "fst (tryGet (traced pg) c i props (s, l)) = fst (tryGet pg c i props s)"
  "fst (snd (tryGet (traced pg) c i props (s, l))) = snd (tryGet pg c i props s)"
  "fst (get (traced pg) c i props (s, l)) = fst (get pg c i props s)"
  "fst (snd (get (traced pg) c i props (s, l))) = snd (get pg c i props s)"
  "fst (tryFindOne (traced pg) c criteria (s, l)) = fst (tryFindOne pg c criteria s)"
  "fst (snd (tryFindOne (traced pg) c criteria (s, l))) = snd (tryFindOne pg c criteria s)"
  "fst (findOne (traced pg) c criteria (s, l)) = fst (findOne pg c criteria s)"
  "fst (snd (findOne (traced pg) c criteria (s, l))) = snd (findOne pg c criteria s)"
  "fst (update (traced pg) c i body (s, l)) = fst (update pg c i body s)"
  "fst (snd (update (traced pg) c i body (s, l))) = snd (update pg c i body s)"
  "fst (raw (traced pg) p q (s, l)) = fst (raw pg p q s)"
  "fst (snd (raw (traced pg) p q (s, l))) = snd (raw pg p q s)"
  by (simp_all add: all_def find'_def tryGet_def get_def tryFindOne_def findOne_def update_def
        traced_queryCollection traced_raw split: prod.splits sum.splits option.splits)

lemma traced_faithful_insert:
  "fst (insert' (traced pg) c body (s, l)) = fst (insert' pg c body s)"
  "fst (snd (insert' (traced pg) c body (s, l))) = snd (insert' pg c body s)"
  using traced_changeCollection [of pg c "[(''body'', body)]" "insert_sql c" s l]
  by (auto simp add: insert'_def split: prod.splits sum.splits)

lemma sql_not_create:
  "all_sql c \<noteq> createCollection_sql c'"
  "find_sql c \<noteq> createCollection_sql c'"
  "tryFindOne_sql c \<noteq> createCollection_sql c'"
  "tryGet_sql cols c \<noteq> createCollection_sql c'"
  "update_sql c \<noteq> createCollection_sql c'"
  "insert_sql c \<noteq> createCollection_sql c'"
  by (simp_all add: all_sql_def find_sql_def tryFindOne_sql_def tryGet_sql_def update_sql_def
        insert_sql_def createCollection_sql_def)

lemma changeCollection_issued:
  "issued (changeCollection (traced pg) c p q (s, []))
     \<in> {[(q, p)], [(q, p), (createCollection_sql c, [])],
        [(q, p), (createCollection_sql c, []), (q, p)]}"
  by (simp add: issued_def changeCollection_def createCollection_def traced_def
           split: prod.splits sum.splits)

lemma queryCollection_fails:
  "pg q p s = (Inl e, s') \<Longrightarrow>
   queryCollection (traced pg) c p q (s, []) =
     (if code e = Some tableDoesNotExist then Inr [] else Inl (PgError e), s', [(q, p)])"
  by (simp add: queryCollection_def traced_def)

lemma queryCollection_issued:
  "snd (snd (queryCollection (traced pg) c p q (s, []))) = [(q, p)]"
  by (simp add: queryCollection_def traced_def split: prod.splits sum.splits)

lemma queryCollection_issuedD:
  "queryCollection (traced pg) c p q (s, []) = (x, y, z) \<Longrightarrow> z = [(q, p)]"
  using queryCollection_issued [of pg c p q s] by simp

subsection \<open>insert: provisioning and one retry\<close>

text \<open>
  Claim C1. \<^verbatim>\<open>insert\<close> executes the insert statement. If that succeeds, or fails with a
  code other than ``table does not exist'', that is the outcome and nothing else was
  executed. If it fails with ``table does not exist'', the collection is provisioned;
  a failure of the provisioning is thrown as it is, and otherwise the insert statement
  is executed a second time, whose outcome, a second ``table does not exist'' included,
  is the outcome of \<^verbatim>\<open>insert\<close>. In every case the statements issued are the insert, or
  the insert and the provisioning, or the insert, the provisioning and the insert
  again: never more than one retry.
\<close>

theorem insert_provisions_and_retries_once:
  fixes pg :: "('s, 'r) pg"
  shows
  "(let q = insert_sql c; p = [(''body'', body)]; k = createCollection_sql c;
        out = insert' (traced pg) c body (s, [])
    in (pg q p s = (Inr results, s1) \<longrightarrow> out = (Inr (index0 results), s1, [(q, p)]))
     \<and> (pg q p s = (Inl e, s1) \<and> code e \<noteq> Some tableDoesNotExist \<longrightarrow>
          out = (Inl (PgError e), s1, [(q, p)]))
     \<and> (pg q p s = (Inl e, s1) \<and> code e = Some tableDoesNotExist
          \<and> pg k [] s1 = (Inl e2, s2) \<longrightarrow>
          out = (Inl (PgError e2), s2, [(q, p), (k, [])]))
     \<and> (pg q p s = (Inl e, s1) \<and> code e = Some tableDoesNotExist
          \<and> pg k [] s1 = (Inr created, s2) \<and> pg q p s2 = (Inl e3, s3) \<longrightarrow>
          out = (Inl (PgError e3), s3, [(q, p), (k, []), (q, p)]))
     \<and> (pg q p s = (Inl e, s1) \<and> code e = Some tableDoesNotExist
          \<and> pg k [] s1 = (Inr created, s2) \<and> pg q p s2 = (Inr results, s3) \<longrightarrow>
          out = (Inr (index0 results), s3, [(q, p), (k, []), (q, p)]))
     \<and> issued out \<in> {[(q, p)], [(q, p), (k, [])], [(q, p), (k, []), (q, p)]})"
proof -
  let ?q = "insert_sql c" and ?p = "[(''body'', body)]"
  have iss: "issued (insert' (traced pg) c body (s, [])) =
             issued (changeCollection (traced pg) c ?p ?q (s, []))"
    by (simp add: insert'_def issued_def split: prod.splits sum.splits)
  show ?thesis
    unfolding Let_def iss
    apply (intro conjI impI)
         apply (simp_all add: insert'_def changeCollection_def createCollection_def traced_def)
    using changeCollection_issued [of pg c ?p ?q s]
    apply (simp add: changeCollection_def createCollection_def traced_def)
    done
qed

theorem insert_provisions_and_retries_once_witness:
  "insert' (traced scripted) ''users'' (JStr ''b'') ([Inr [JNum 1]], [])
     = (Inr (Some (JNum 1)), [], [(insert_sql ''users'', [(''body'', JStr ''b'')])])
   \<and> insert' (traced scripted) ''users'' (JStr ''b'') ([Inl duplicate :: pg_error + json list], [])
     = (Inl (PgError duplicate), [], [(insert_sql ''users'', [(''body'', JStr ''b'')])])
   \<and> insert' (traced scripted) ''users'' (JStr ''b'')
        ([Inl missing, Inl duplicate :: pg_error + json list], [])
     = (Inl (PgError duplicate), [],
        [(insert_sql ''users'', [(''body'', JStr ''b'')]), (createCollection_sql ''users'', [])])
   \<and> insert' (traced scripted) ''users'' (JStr ''b'')
        ([Inl missing, Inr [], Inl missing :: pg_error + json list], [])
     = (Inl (PgError missing), [],
        [(insert_sql ''users'', [(''body'', JStr ''b'')]), (createCollection_sql ''users'', []),
         (insert_sql ''users'', [(''body'', JStr ''b'')])])
   \<and> insert' (traced scripted) ''users'' (JStr ''b'')
        ([Inl missing, Inr [], Inr [JNum 1]], [])
     = (Inr (Some (JNum 1)), [],
        [(insert_sql ''users'', [(''body'', JStr ''b'')]), (createCollection_sql ''users'', []),
         (insert_sql ''users'', [(''body'', JStr ''b'')])])"
  using
    insert_provisions_and_retries_once [where pg = "scripted :: (_, json) pg" and c = "''users''"
      and body = "JStr ''b''" and s = "[Inr [JNum 1]]" and results = "[JNum 1]" and ?s1.0 = "[]"]
    insert_provisions_and_retries_once [where pg = "scripted :: (_, json) pg" and c = "''users''"
      and body = "JStr ''b''" and s = "[Inl duplicate]" and e = duplicate and ?s1.0 = "[]"]
    insert_provisions_and_retries_once [where pg = "scripted :: (_, json) pg" and c = "''users''"
      and body = "JStr ''b''" and s = "[Inl missing, Inl duplicate]" and e = missing
      and ?s1.0 = "[Inl duplicate]" and ?e2.0 = duplicate and ?s2.0 = "[]"]
    insert_provisions_and_retries_once [where pg = "scripted :: (_, json) pg" and c = "''users''"
      and body = "JStr ''b''" and s = "[Inl missing, Inr [], Inl missing]" and e = missing
      and ?s1.0 = "[Inr [], Inl missing]" and created = "[]" and ?s2.0 = "[Inl missing]"
      and ?e3.0 = missing and ?s3.0 = "[]"]
    insert_provisions_and_retries_once [where pg = "scripted :: (_, json) pg" and c = "''users''"
      and body = "JStr ''b''" and s = "[Inl missing, Inr [], Inr [JNum 1]]" and e = missing
      and ?s1.0 = "[Inr [], Inr [JNum 1]]" and created = "[]" and ?s2.0 = "[Inr [JNum 1]]"
      and results = "[JNum 1]" and ?s3.0 = "[]"]
  by (simp add: Let_def scripted_def missing_def duplicate_def tableDoesNotExist_def index0_def)

subsection \<open>Reads of a collection that does not exist\<close>

text \<open>
  Claim C2. When the execution layer answers the statement of a read with an exception
  whose code is ``table does not exist'', \<^verbatim>\<open>all\<close> and \<^verbatim>\<open>find\<close> return the empty
  sequence, \<^verbatim>\<open>tryGet\<close> and \<^verbatim>\<open>tryFindOne\<close> return null, \<^verbatim>\<open>get\<close> and \<^verbatim>\<open>findOne\<close> throw
  \<^verbatim>\<open>MissingRecordError\<close>; an exception with any other code is thrown as it is. Whatever
  the answer, a read issues its one statement and nothing else, and that statement is
  never the provisioning of a collection.
\<close>

theorem reads_recover_from_missing_collection:
  fixes pg :: "('s, 'r) pg"
  shows
  "(pg (all_sql c) [] s = (Inl e, s') \<longrightarrow>
      all (traced pg) c (s, []) =
        (if code e = Some tableDoesNotExist then Inr [] else Inl (PgError e),
         s', [(all_sql c, [])]))
  \<and> (pg (find_sql c) [(''criteria'', JObj criteria)] s = (Inl e, s') \<longrightarrow>
      find' (traced pg) c criteria (s, []) =
        (if code e = Some tableDoesNotExist then Inr [] else Inl (PgError e),
         s', [(find_sql c, [(''criteria'', JObj criteria)])]))
  \<and> (pg (tryGet_sql (propsToColumns props) c) [(''id'', JNum i)] s = (Inl e, s') \<longrightarrow>
      tryGet (traced pg) c i props (s, []) =
        (if code e = Some tableDoesNotExist then Inr None else Inl (PgError e),
         s', [(tryGet_sql (propsToColumns props) c, [(''id'', JNum i)])]))
  \<and> (pg (tryGet_sql (propsToColumns props) c) [(''id'', JNum i)] s = (Inl e, s') \<longrightarrow>
      get (traced pg) c i props (s, []) =
        (if code e = Some tableDoesNotExist
         then Inl (MissingRecordError c (JObj [(''id'', JNum i)])) else Inl (PgError e),
         s', [(tryGet_sql (propsToColumns props) c, [(''id'', JNum i)])]))
  \<and> (pg (tryFindOne_sql c) [(''criteria'', JObj criteria)] s = (Inl e, s') \<longrightarrow>
      tryFindOne (traced pg) c criteria (s, []) =
        (if code e = Some tableDoesNotExist then Inr None else Inl (PgError e),
         s', [(tryFindOne_sql c, [(''criteria'', JObj criteria)])]))
  \<and> (pg (tryFindOne_sql c) [(''criteria'', JObj criteria)] s = (Inl e, s') \<longrightarrow>
      findOne (traced pg) c criteria (s, []) =
        (if code e = Some tableDoesNotExist
         then Inl (MissingRecordError c (JObj criteria)) else Inl (PgError e),
         s', [(tryFindOne_sql c, [(''criteria'', JObj criteria)])]))
  \<and> issued (all (traced pg) c (s, [])) = [(all_sql c, [])]
  \<and> issued (find' (traced pg) c criteria (s, [])) = [(find_sql c, [(''criteria'', JObj criteria)])]
  \<and> issued (tryGet (traced pg) c i props (s, [])) =
       [(tryGet_sql (propsToColumns props) c, [(''id'', JNum i)])]
  \<and> issued (get (traced pg) c i props (s, [])) =
       [(tryGet_sql (propsToColumns props) c, [(''id'', JNum i)])]
  \<and> issued (tryFindOne (traced pg) c criteria (s, [])) =
       [(tryFindOne_sql c, [(''criteria'', JObj criteria)])]
  \<and> issued (findOne (traced pg) c criteria (s, [])) =
       [(tryFindOne_sql c, [(''criteria'', JObj criteria)])]
  \<and> (\<forall>c'. createCollection_sql c'
          \<notin> {all_sql c, find_sql c, tryGet_sql (propsToColumns props) c, tryFindOne_sql c})"
  apply (intro conjI impI allI)
              apply (simp_all add: all_def find'_def tryGet_def get_def tryFindOne_def
      findOne_def queryCollection_fails firstOrNull_def issued_def queryCollection_issued
      sql_not_create [symmetric])
     apply (auto split: prod.splits sum.splits option.splits dest: queryCollection_issuedD)
  done

theorem reads_recover_from_missing_collection_witness:
  "all (traced scripted) ''ghosts'' ([Inl missing :: pg_error + json list], [])
     = (Inr [], [], [(all_sql ''ghosts'', [])])
   \<and> find' (traced scripted) ''ghosts'' [(''a'', JNum 1)] ([Inl missing :: pg_error + json list], [])
     = (Inr [], [], [(find_sql ''ghosts'', [(''criteria'', JObj [(''a'', JNum 1)])])])
   \<and> tryGet (traced scripted) ''ghosts'' 7 None ([Inl missing :: pg_error + json list], [])
     = (Inr None, [], [(tryGet_sql ''*'' ''ghosts'', [(''id'', JNum 7)])])
   \<and> get (traced scripted) ''ghosts'' 7 None ([Inl missing :: pg_error + json list], [])
     = (Inl (MissingRecordError ''ghosts'' (JObj [(''id'', JNum 7)])), [],
        [(tryGet_sql ''*'' ''ghosts'', [(''id'', JNum 7)])])
   \<and> tryFindOne (traced scripted) ''ghosts'' [(''a'', JNum 1)]
        ([Inl missing :: pg_error + json list], [])
     = (Inr None, [], [(tryFindOne_sql ''ghosts'', [(''criteria'', JObj [(''a'', JNum 1)])])])
   \<and> findOne (traced scripted) ''ghosts'' [(''a'', JNum 1)]
        ([Inl missing :: pg_error + json list], [])
     = (Inl (MissingRecordError ''ghosts'' (JObj [(''a'', JNum 1)])), [],
        [(tryFindOne_sql ''ghosts'', [(''criteria'', JObj [(''a'', JNum 1)])])])
   \<and> all (traced scripted) ''ghosts'' ([Inl duplicate :: pg_error + json list], [])
     = (Inl (PgError duplicate), [], [(all_sql ''ghosts'', [])])
   \<and> get (traced scripted) ''ghosts'' 7 None ([Inl duplicate :: pg_error + json list], [])
     = (Inl (PgError duplicate), [], [(tryGet_sql ''*'' ''ghosts'', [(''id'', JNum 7)])])"
  using
    reads_recover_from_missing_collection [where pg = "scripted :: (_, json) pg"
      and c = "''ghosts''" and s = "[Inl missing]" and e = missing and s' = "[]"
      and criteria = "[(''a'', JNum 1)]" and props = None and i = 7]
    reads_recover_from_missing_collection [where pg = "scripted :: (_, json) pg"
      and c = "''ghosts''" and s = "[Inl duplicate]" and e = duplicate and s' = "[]"
      and criteria = "[(''a'', JNum 1)]" and props = None and i = 7]
  by (simp add: scripted_def missing_def duplicate_def tableDoesNotExist_def propsToColumns_def)

subsection \<open>get and tryGet, findOne and tryFindOne\<close>

lemma tryGet_not_MissingRecordError:
  "fst (tryGet pg c i props s) \<noteq> Inl (MissingRecordError c' x)"
  "fst (tryFindOne pg c criteria s) \<noteq> Inl (MissingRecordError c' x)"
  by (simp_all add: tryGet_def tryFindOne_def queryCollection_def split: prod.splits sum.splits)

text \<open>
  Claim C6. \<^verbatim>\<open>get\<close> leaves the database as \<^verbatim>\<open>tryGet\<close> does; it returns a document exactly
  when \<^verbatim>\<open>tryGet\<close> returns that document, throws \<^verbatim>\<open>MissingRecordError\<close> with the collection
  and \<^verbatim>\<open>{ id }\<close> exactly when \<^verbatim>\<open>tryGet\<close> returns null, and throws an exception of the
  execution layer exactly when \<^verbatim>\<open>tryGet\<close> throws it. A table that does not exist and a
  table without a matching row both end in the same \<^verbatim>\<open>MissingRecordError\<close>. \<^verbatim>\<open>findOne\<close>
  and \<^verbatim>\<open>tryFindOne\<close> are related in the same way, with the criteria in place of
  \<^verbatim>\<open>{ id }\<close>.
\<close>

theorem get_is_tryGet_or_MissingRecordError:
  fixes pg :: "('s, 'r) pg"
  shows
  "snd (get pg c i props s) = snd (tryGet pg c i props s)
   \<and> (\<forall>d. (fst (get pg c i props s) = Inr d) = (fst (tryGet pg c i props s) = Inr (Some d)))
   \<and> ((fst (get pg c i props s) = Inl (MissingRecordError c (JObj [(''id'', JNum i)])))
        = (fst (tryGet pg c i props s) = Inr None))
   \<and> (\<forall>e. (fst (get pg c i props s) = Inl (PgError e)) = (fst (tryGet pg c i props s) = Inl (PgError e)))
   \<and> snd (findOne pg c criteria s) = snd (tryFindOne pg c criteria s)
   \<and> (\<forall>d. (fst (findOne pg c criteria s) = Inr d) = (fst (tryFindOne pg c criteria s) = Inr (Some d)))
   \<and> ((fst (findOne pg c criteria s) = Inl (MissingRecordError c (JObj criteria)))
        = (fst (tryFindOne pg c criteria s) = Inr None))
   \<and> (\<forall>e. (fst (findOne pg c criteria s) = Inl (PgError e))
        = (fst (tryFindOne pg c criteria s) = Inl (PgError e)))
   \<and> (pg (tryGet_sql (propsToColumns props) c) [(''id'', JNum i)] s = (Inl e, s')
        \<and> code e = Some tableDoesNotExist \<longrightarrow>
       get pg c i props s = (Inl (MissingRecordError c (JObj [(''id'', JNum i)])), s'))
   \<and> (pg (tryGet_sql (propsToColumns props) c) [(''id'', JNum i)] s = (Inr [], s') \<longrightarrow>
       get pg c i props s = (Inl (MissingRecordError c (JObj [(''id'', JNum i)])), s'))
   \<and> (pg (tryFindOne_sql c) [(''criteria'', JObj criteria)] s = (Inl e, s')
        \<and> code e = Some tableDoesNotExist \<longrightarrow>
       findOne pg c criteria s = (Inl (MissingRecordError c (JObj criteria)), s'))
   \<and> (pg (tryFindOne_sql c) [(''criteria'', JObj criteria)] s = (Inr [], s') \<longrightarrow>
       findOne pg c criteria s = (Inl (MissingRecordError c (JObj criteria)), s'))"
proof -
  have g: "get pg c i props s =
      (case tryGet pg c i props s of
         (Inl e, s') \<Rightarrow> (Inl e, s')
       | (Inr None, s') \<Rightarrow> (Inl (MissingRecordError c (JObj [(''id'', JNum i)])), s')
       | (Inr (Some result), s') \<Rightarrow> (Inr result, s'))"
    by (simp add: get_def)
  have f: "findOne pg c criteria s =
      (case tryFindOne pg c criteria s of
         (Inl e, s') \<Rightarrow> (Inl e, s')
       | (Inr None, s') \<Rightarrow> (Inl (MissingRecordError c (JObj criteria)), s')
       | (Inr (Some result), s') \<Rightarrow> (Inr result, s'))"
    by (simp add: findOne_def)
  have a: "snd (get pg c i props s) = snd (tryGet pg c i props s)"
    "\<forall>d. (fst (get pg c i props s) = Inr d) = (fst (tryGet pg c i props s) = Inr (Some d))"
    "(fst (get pg c i props s) = Inl (MissingRecordError c (JObj [(''id'', JNum i)])))
        = (fst (tryGet pg c i props s) = Inr None)"
    "\<forall>e. (fst (get pg c i props s) = Inl (PgError e)) = (fst (tryGet pg c i props s) = Inl (PgError e))"
    using tryGet_not_MissingRecordError(1) [of pg c i props s c "JObj [(''id'', JNum i)]"]
    unfolding g by (auto split: prod.splits sum.splits option.splits)
  have b: "snd (findOne pg c criteria s) = snd (tryFindOne pg c criteria s)"
    "\<forall>d. (fst (findOne pg c criteria s) = Inr d) = (fst (tryFindOne pg c criteria s) = Inr (Some d))"
    "(fst (findOne pg c criteria s) = Inl (MissingRecordError c (JObj criteria)))
        = (fst (tryFindOne pg c criteria s) = Inr None)"
    "\<forall>e. (fst (findOne pg c criteria s) = Inl (PgError e))
        = (fst (tryFindOne pg c criteria s) = Inl (PgError e))"
    using tryGet_not_MissingRecordError(2) [of pg c criteria s c "JObj criteria"]
    unfolding f by (auto split: prod.splits sum.splits option.splits)
  have c: "pg (tryGet_sql (propsToColumns props) c) [(''id'', JNum i)] s = (Inl e, s')
        \<and> code e = Some tableDoesNotExist \<longrightarrow>
       get pg c i props s = (Inl (MissingRecordError c (JObj [(''id'', JNum i)])), s')"
    "pg (tryGet_sql (propsToColumns props) c) [(''id'', JNum i)] s = (Inr [], s') \<longrightarrow>
       get pg c i props s = (Inl (MissingRecordError c (JObj [(''id'', JNum i)])), s')"
    "pg (tryFindOne_sql c) [(''criteria'', JObj criteria)] s = (Inl e, s')
        \<and> code e = Some tableDoesNotExist \<longrightarrow>
       findOne pg c criteria s = (Inl (MissingRecordError c (JObj criteria)), s')"
    "pg (tryFindOne_sql c) [(''criteria'', JObj criteria)] s = (Inr [], s') \<longrightarrow>
       findOne pg c criteria s = (Inl (MissingRecordError c (JObj criteria)), s')"
    by (simp_all add: get_def tryGet_def findOne_def tryFindOne_def queryCollection_def firstOrNull_def)
  show ?thesis
    using a b c by blast
qed

theorem get_is_tryGet_or_MissingRecordError_witness:
  "get scripted ''users'' 1 None [Inr [JStr ''doc'']] = (Inr (JStr ''doc''), [])
   \<and> tryGet scripted ''users'' 1 None [Inr [JStr ''doc'']] = (Inr (Some (JStr ''doc'')), [])
   \<and> get scripted ''users'' 1 None [Inr [] :: pg_error + json list]
       = (Inl (MissingRecordError ''users'' (JObj [(''id'', JNum 1)])), [])
   \<and> tryGet scripted ''users'' 1 None [Inr [] :: pg_error + json list] = (Inr None, [])
   \<and> get scripted ''users'' 1 None [Inl missing :: pg_error + json list]
       = (Inl (MissingRecordError ''users'' (JObj [(''id'', JNum 1)])), [])
   \<and> findOne scripted ''users'' [(''a'', JNum 1)] [Inr [] :: pg_error + json list]
       = (Inl (MissingRecordError ''users'' (JObj [(''a'', JNum 1)])), [])
   \<and> findOne scripted ''users'' [(''a'', JNum 1)] [Inl missing :: pg_error + json list]
       = (Inl (MissingRecordError ''users'' (JObj [(''a'', JNum 1)])), [])"
  using
    get_is_tryGet_or_MissingRecordError [where pg = "scripted :: (_, json) pg"
      and c = "''users''" and i = 1 and props = None and s = "[Inr [JStr ''doc'']]"
      and criteria = "[(''a'', JNum 1)]" and e = missing and s' = "[]"]
    get_is_tryGet_or_MissingRecordError [where pg = "scripted :: (_, json) pg"
      and c = "''users''" and i = 1 and props = None and s = "[Inr []]"
      and criteria = "[(''a'', JNum 1)]" and e = missing and s' = "[]"]
    get_is_tryGet_or_MissingRecordError [where pg = "scripted :: (_, json) pg"
      and c = "''users''" and i = 1 and props = None and s = "[Inl missing]"
      and criteria = "[(''a'', JNum 1)]" and e = missing and s' = "[]"]
  by (simp add: scripted_def missing_def tableDoesNotExist_def get_def tryGet_def findOne_def
        tryFindOne_def queryCollection_def firstOrNull_def)

subsection \<open>Where the missing collection reaches the caller\<close>

text \<open>
  Claim C3, as stated, fails: \<^verbatim>\<open>update\<close> and \<^verbatim>\<open>raw\<close> hand the statement to the execution
  layer with no \<^verbatim>\<open>catch\<close>, and \<^verbatim>\<open>insert\<close> does not catch what the retried statement
  throws, so ``table does not exist'' reaches their callers as the raw exception.
\<close>

theorem missing_collection_reaches_caller_counterexample:
  "update scripted ''ghosts'' 1 (JObj []) [Inl missing :: pg_error + json list]
     = (Inl (PgError missing), [])
   \<and> raw scripted [] ''select * from ghosts'' [Inl missing :: pg_error + json list]
     = (Inl (PgError missing), [])
   \<and> insert' scripted ''ghosts'' (JObj []) [Inl missing, Inr [], Inl missing :: pg_error + json list]
     = (Inl (PgError missing), [])
   \<and> update postgres ''ghosts'' 1 (JObj []) no_tables = (Inl (PgError missing), no_tables)
   \<and> code missing = Some tableDoesNotExist"
  by (simp add: update_def raw_def insert'_def changeCollection_def createCollection_def
        scripted_def missing_code postgres_def read_update_sql is_identifier_def
        is_ident_char_def no_tables_def)

text \<open>
  Claim C3, amended. On the six read paths no exception with the code ``table does not
  exist'' reaches the caller. \<^verbatim>\<open>insert\<close> answers the first such exception by
  provisioning the collection, and when it throws one nevertheless, the provisioning
  was issued before. \<^verbatim>\<open>update\<close> and \<^verbatim>\<open>raw\<close> recover nothing: they issue their one
  statement and throw whatever it throws.
\<close>

theorem missing_collection_resolved_on_recovering_paths:
  fixes pg :: "('s, 'r) pg"
  shows
  "(code e = Some tableDoesNotExist \<longrightarrow>
      fst (all pg c s) \<noteq> Inl (PgError e)
    \<and> fst (find' pg c criteria s) \<noteq> Inl (PgError e)
    \<and> fst (tryGet pg c i props s) \<noteq> Inl (PgError e)
    \<and> fst (get pg c i props s) \<noteq> Inl (PgError e)
    \<and> fst (tryFindOne pg c criteria s) \<noteq> Inl (PgError e)
    \<and> fst (findOne pg c criteria s) \<noteq> Inl (PgError e))
   \<and> (pg (insert_sql c) [(''body'', body)] s = (Inl e, s1) \<and> code e = Some tableDoesNotExist \<longrightarrow>
        take 2 (issued (insert' (traced pg) c body (s, [])))
          = [(insert_sql c, [(''body'', body)]), (createCollection_sql c, [])])
   \<and> (fst (insert' (traced pg) c body (s, [])) = Inl (PgError e)
        \<and> code e = Some tableDoesNotExist \<longrightarrow>
        take 2 (issued (insert' (traced pg) c body (s, [])))
          = [(insert_sql c, [(''body'', body)]), (createCollection_sql c, [])])
   \<and> (pg (update_sql c) [(''id'', JNum i), (''body'', body)] s = (Inl e, s') \<longrightarrow>
        update (traced pg) c i body (s, []) =
          (Inl (PgError e), s', [(update_sql c, [(''id'', JNum i), (''body'', body)])]))
   \<and> (pg query params s = (Inl e, s') \<longrightarrow>
        raw (traced pg) params query (s, []) = (Inl (PgError e), s', [(query, params)]))"
  apply (intro conjI impI)
           apply (simp_all add: all_def find'_def tryGet_def get_def tryFindOne_def findOne_def
      queryCollection_def update_def raw_def traced_def issued_def
      split: prod.splits sum.splits option.splits)
   apply (auto simp add: insert'_def changeCollection_def createCollection_def traced_def
      split: prod.splits sum.splits option.splits if_splits)
  done

theorem missing_collection_resolved_on_recovering_paths_witness:
  "code missing = Some tableDoesNotExist
   \<and> fst (all scripted ''ghosts'' [Inl missing :: pg_error + json list]) = Inr []
   \<and> fst (get scripted ''ghosts'' 1 None [Inl missing :: pg_error + json list])
       = Inl (MissingRecordError ''ghosts'' (JObj [(''id'', JNum 1)]))
   \<and> insert' (traced scripted) ''ghosts'' (JObj [])
        ([Inl missing, Inr [], Inl missing :: pg_error + json list], [])
       = (Inl (PgError missing), [],
          [(insert_sql ''ghosts'', [(''body'', JObj [])]), (createCollection_sql ''ghosts'', []),
           (insert_sql ''ghosts'', [(''body'', JObj [])])])
   \<and> update (traced scripted) ''ghosts'' 1 (JObj []) ([Inl missing :: pg_error + json list], [])
       = (Inl (PgError missing), [],
          [(update_sql ''ghosts'', [(''id'', JNum 1), (''body'', JObj [])])])
   \<and> raw (traced scripted) [] ''select 1'' ([Inl missing :: pg_error + json list], [])
       = (Inl (PgError missing), [], [(''select 1'', [])])"
  using
    missing_collection_resolved_on_recovering_paths [where pg = "scripted :: (_, json) pg"
      and e = missing and c = "''ghosts''" and s = "[Inl missing]" and s' = "[]" and i = 1
      and props = None and criteria = "[]" and body = "JObj []" and query = "''select 1''"
      and params = "[]" and ?s1.0 = "[]"]
    missing_collection_resolved_on_recovering_paths [where pg = "scripted :: (_, json) pg"
      and e = missing and c = "''ghosts''" and s = "[Inl missing, Inr [], Inl missing]"
      and s' = "[Inr [], Inl missing]" and i = 1
      and props = None and criteria = "[]" and body = "JObj []" and query = "''select 1''"
      and params = "[]" and ?s1.0 = "[Inr [], Inl missing]"]
  by (simp add: scripted_def missing_code all_def get_def tryGet_def queryCollection_def
        firstOrNull_def insert'_def changeCollection_def createCollection_def traced_def
        update_def raw_def issued_def)

subsection \<open>Provisioning a collection that exists\<close>

text \<open>
  Whatever the provisioning statement throws, \<^verbatim>\<open>createCollection\<close> throws it, and an
  \<^verbatim>\<open>insert\<close> that provisioned throws it too, without a second attempt of the insert
  statement: \<^verbatim>\<open>createCollection\<close> has no \<^verbatim>\<open>catch\<close>, and \<^verbatim>\<open>changeCollection\<close> calls it inside
  its own \<^verbatim>\<open>catch\<close> block.
\<close>

lemma createCollection_failure_thrown:
  fixes pg :: "('s, 'r) pg"
  shows
  "(pg (createCollection_sql c) [] s = (Inl e2, s2) \<longrightarrow>
      createCollection (traced pg) c (s, []) =
        (Inl (PgError e2), s2, [(createCollection_sql c, [])]))
   \<and> (pg (insert_sql c) [(''body'', body)] s = (Inl e, s1) \<and> code e = Some tableDoesNotExist
        \<and> pg (createCollection_sql c) [] s1 = (Inl e2, s2) \<longrightarrow>
      insert' (traced pg) c body (s, []) =
        (Inl (PgError e2), s2,
         [(insert_sql c, [(''body'', body)]), (createCollection_sql c, [])]))"
  by (simp add: createCollection_def insert'_def changeCollection_def traced_def)

text \<open>
  Claim C5: the code breaks it. \<^verbatim>\<open>changeCollection\<close> (``Creates collection on demand.'')
  creates the table and retries, but its creation statement is a plain
  \<^verbatim>\<open>create table\<close>, and nothing treats ``relation already exists'' as success. So the
  provisioning is not safe on a table that exists: on the table \<^verbatim>\<open>users\<close> it fails with
  that error. In the race of two first writers, the one whose insert failed before
  the other one's provisioning, and who provisions after it, gets ``relation already
  exists'' from \<^verbatim>\<open>insert\<close>: its document is not stored, the table is there and empty,
  and the retry that the code does not make would have stored the document. The same
  holds on any execution layer that answers the insert with ``table does not exist''
  and the provisioning with ``relation already exists''.
\<close>

theorem provisioning_race_loses_insert:
  "createCollection postgres ''users'' users_db = (Inl (PgError duplicate), users_db)
   \<and> insert' (interleaved postgres) ''ghosts'' (JObj [(''a'', JNum 1)])
        (no_tables, [other_provisions ''ghosts''])
       = (Inl (PgError duplicate), other_provisions ''ghosts'' no_tables, [])
   \<and> map_option rows (tables (other_provisions ''ghosts'' no_tables) ''ghosts'') = Some []
   \<and> fst (insert' postgres ''ghosts'' (JObj [(''a'', JNum 1)])
            (other_provisions ''ghosts'' no_tables))
       = Inr (Some \<lparr>doc_id = Some 1, doc_created = Some 9, doc_updated = Some 9,
                    doc_body = Some (JObj [(''a'', JNum 1)])\<rparr>)
   \<and> insert' (traced scripted) ''ghosts'' (JObj [(''a'', JNum 1)])
        ([Inl missing, Inl duplicate :: pg_error + json list], [])
       = (Inl (PgError duplicate), [],
          [(insert_sql ''ghosts'', [(''body'', JObj [(''a'', JNum 1)])]),
           (createCollection_sql ''ghosts'', [])])
   \<and> code duplicate \<noteq> Some tableDoesNotExist"
proof -
  have users: "is_identifier ''users''" and ghosts: "is_identifier ''ghosts''"
    by (simp_all add: is_identifier_def is_ident_char_def)
  have created: "other_provisions ''ghosts'' no_tables =
      \<lparr>tables = [''ghosts'' \<mapsto> \<lparr>rows = [], serial = 1\<rparr>], now = 9\<rparr>"
    by (simp add: other_provisions_def createCollection_def postgres_def
          read_createCollection_sql [OF ghosts] no_tables_def)
  have 1: "createCollection postgres ''users'' users_db = (Inl (PgError duplicate), users_db)"
    by (simp add: createCollection_def postgres_def read_createCollection_sql [OF users]
          users_db_def)
  have 2: "insert' (interleaved postgres) ''ghosts'' (JObj [(''a'', JNum 1)])
        (no_tables, [other_provisions ''ghosts''])
       = (Inl (PgError duplicate), other_provisions ''ghosts'' no_tables, [])"
    unfolding created
    by (simp add: insert'_def changeCollection_def createCollection_def interleaved_def
          created [unfolded no_tables_def] postgres_def read_createCollection_sql [OF ghosts]
          read_insert_sql [OF ghosts] no_tables_def missing_code)
  have 3: "map_option rows (tables (other_provisions ''ghosts'' no_tables) ''ghosts'') = Some []"
    by (simp add: created)
  have 4: "fst (insert' postgres ''ghosts'' (JObj [(''a'', JNum 1)])
            (other_provisions ''ghosts'' no_tables))
       = Inr (Some \<lparr>doc_id = Some 1, doc_created = Some 9, doc_updated = Some 9,
                    doc_body = Some (JObj [(''a'', JNum 1)])\<rparr>)"
    by (simp add: created insert'_def changeCollection_def postgres_def
          read_insert_sql [OF ghosts] project_Star stored_def index0_def)
  have 5: "insert' (traced scripted) ''ghosts'' (JObj [(''a'', JNum 1)])
        ([Inl missing, Inl duplicate :: pg_error + json list], [])
       = (Inl (PgError duplicate), [],
          [(insert_sql ''ghosts'', [(''body'', JObj [(''a'', JNum 1)])]),
           (createCollection_sql ''ghosts'', [])])"
    by (simp add: insert'_def changeCollection_def createCollection_def traced_def scripted_def
          missing_code)
  have 6: "code duplicate \<noteq> Some tableDoesNotExist"
    by (simp add: duplicate_def tableDoesNotExist_def)
  show ?thesis using 1 2 3 4 5 6 by simp
qed

subsection \<open>all and find\<close>

lemma contains_criteria:
  "contains b (JObj criteria) = (\<forall>(k, v) \<in> set criteria. json_get b k = Some v)"
  by (simp add: contains_def list_all_iff)

text \<open>
  Claim C7. On a collection that exists, \<^verbatim>\<open>all\<close> returns the stored documents, every one
  of them once, in ascending order of id; \<^verbatim>\<open>find\<close> returns, in ascending order of id,
  the stored documents in whose body every key of the criteria is present with the
  criteria's value, whatever other keys the body has. Neither changes the database.
\<close>

theorem all_and_find_in_ascending_id:
  assumes "is_identifier c" and "tables db c = Some t"
  shows
  "(\<exists>rs. all postgres c db = (Inr (map stored rs), db)
        \<and> sorted (map row_id rs) \<and> mset rs = mset (rows t))
   \<and> (\<exists>rs. find' postgres c criteria db = (Inr (map stored rs), db)
        \<and> sorted (map row_id rs)
        \<and> mset rs = mset (filter (\<lambda>r. \<forall>(k, v) \<in> set criteria.
                                         json_get (row_body r) k = Some v) (rows t)))"
proof -
  let ?matches = "\<lambda>r. \<forall>(k, v) \<in> set criteria. json_get (row_body r) k = Some v"
  have a: "all postgres c db = (Inr (map stored (sort_key row_id (rows t))), db)"
    using assms by (simp add: all_def queryCollection_def postgres_all)
  have f: "find' postgres c criteria db =
      (Inr (map stored (sort_key row_id (filter ?matches (rows t)))), db)"
    using assms by (simp add: find'_def queryCollection_def postgres_find contains_criteria)
  have "\<exists>rs. all postgres c db = (Inr (map stored rs), db)
        \<and> sorted (map row_id rs) \<and> mset rs = mset (rows t)"
    using a by (intro exI [of _ "sort_key row_id (rows t)"]) simp
  moreover have "\<exists>rs. find' postgres c criteria db = (Inr (map stored rs), db)
        \<and> sorted (map row_id rs) \<and> mset rs = mset (filter ?matches (rows t))"
    using f by (intro exI [of _ "sort_key row_id (filter ?matches (rows t))"]) simp
  ultimately show ?thesis by blast
qed

theorem all_and_find_in_ascending_id_witness:
  "is_identifier ''users'' \<and> tables users_db ''users'' = Some \<lparr>rows = users, serial = 4\<rparr>
   \<and> map row_id users = [2, 1, 3]
   \<and> all postgres ''users'' users_db =
       (Inr [\<lparr>doc_id = Some 1, doc_created = Some 4, doc_updated = Some 4,
              doc_body = Some (JObj [(''a'', JNum 1), (''b'', JNum 2)])\<rparr>,
             \<lparr>doc_id = Some 2, doc_created = Some 5, doc_updated = Some 6,
              doc_body = Some (JObj [(''a'', JNum 1), (''b'', JNum 3)])\<rparr>,
             \<lparr>doc_id = Some 3, doc_created = Some 7, doc_updated = Some 7,
              doc_body = Some (JObj [(''a'', JNum 2), (''b'', JNum 2)])\<rparr>], users_db)
   \<and> find' postgres ''users'' [(''a'', JNum 1)] users_db =
       (Inr [\<lparr>doc_id = Some 1, doc_created = Some 4, doc_updated = Some 4,
              doc_body = Some (JObj [(''a'', JNum 1), (''b'', JNum 2)])\<rparr>,
             \<lparr>doc_id = Some 2, doc_created = Some 5, doc_updated = Some 6,
              doc_body = Some (JObj [(''a'', JNum 1), (''b'', JNum 3)])\<rparr>], users_db)"
proof -
  have c: "is_identifier ''users''"
    by (simp add: is_identifier_def is_ident_char_def)
  have t: "tables users_db ''users'' = Some \<lparr>rows = users, serial = 4\<rparr>"
    by (simp add: users_db_def)
  note all_and_find_in_ascending_id [OF c t, of "[(''a'', JNum 1)]"]
  then show ?thesis
    using c t
    by (simp add: all_def find'_def queryCollection_def postgres_all postgres_find
          users_def stored_def contains_def json_get_def)
qed

subsection \<open>update\<close>

lemma filter_unique_key:
  "distinct (map g xs) \<Longrightarrow> x \<in> set xs \<Longrightarrow> filter (\<lambda>y. g y = g x) xs = [x]"
proof (induction xs)
  case Nil
  then show ?case by simp
next
  case (Cons a xs)
  show ?case
  proof (cases "a = x")
    case True
    have "g y \<noteq> g x" if "y \<in> set xs" for y
      using Cons.prems(1) True that by (metis distinct.simps(2) image_eqI list.simps(9) list.set_map)
    then have "filter (\<lambda>y. g y = g x) xs = []"
      by (simp add: filter_empty_conv)
    then show ?thesis using True by simp
  next
    case False
    then have "x \<in> set xs" using Cons.prems(2) by simp
    moreover have "g a \<noteq> g x"
      using Cons.prems(1) calculation by (metis distinct.simps(2) image_eqI list.simps(9) list.set_map)
    ultimately show ?thesis using Cons by simp
  qed
qed

lemma postgres_update:
  "is_identifier c \<Longrightarrow>
   postgres (update_sql c) [(''id'', JNum i), (''body'', b)] db =
     (case tables db c of
        None \<Rightarrow> (Inl missing, db)
      | Some t \<Rightarrow>
          (Inr (map stored
                 (filter (\<lambda>r. row_id r = i)
                    (map (\<lambda>r. if row_id r = i
                              then r\<lparr>row_body := b, row_updated := now db\<rparr> else r) (rows t)))),
           db\<lparr>tables := (tables db)(c \<mapsto>
                 t\<lparr>rows := map (\<lambda>r. if row_id r = i
                                      then r\<lparr>row_body := b, row_updated := now db\<rparr> else r)
                                (rows t)\<rparr>)\<rparr>))"
  by (simp add: postgres_def read_update_sql project_Star Let_def split: option.splits)

lemma updated_rows:
  "filter (\<lambda>r. row_id r = i)
     (map (\<lambda>r. if row_id r = i then r\<lparr>row_body := b, row_updated := n\<rparr> else r) rs) =
   map (\<lambda>r. r\<lparr>row_body := b, row_updated := n\<rparr>) (filter (\<lambda>r. row_id r = i) rs)"
  by (induction rs) auto

text \<open>
  Claim C8. \<^verbatim>\<open>update\<close> issues its one statement, which is not the provisioning, whatever
  the execution layer answers; on a collection whose table does not exist the database
  stays as it is. When the table exists and no row has the id, no row changes and
  the caller gets the empty outcome (\<^verbatim>\<open>results[0]\<close> of an empty array), not a
  \<^verbatim>\<open>MissingRecordError\<close>. When a row has the id (one row at most: the id is the primary key),
  its body is replaced, its \<^verbatim>\<open>updated\<close> becomes the present time, its \<^verbatim>\<open>created\<close> and
  every other row stay, and the updated document is returned.
\<close>

theorem update_replaces_body_without_provisioning:
  fixes pg :: "('s, 'r) pg"
  shows
  "issued (update (traced pg) c i body (s, [])) =
     [(update_sql c, [(''id'', JNum i), (''body'', body)])]
   \<and> (\<forall>c'. update_sql c \<noteq> createCollection_sql c')
   \<and> (is_identifier c \<and> tables db c = None \<longrightarrow>
        update postgres c i body db = (Inl (PgError missing), db))
   \<and> (is_identifier c \<and> tables db c = Some t \<and> i \<notin> row_id ` set (rows t) \<longrightarrow>
        update postgres c i body db = (Inr None, db))
   \<and> (is_identifier c \<and> tables db c = Some t \<and> distinct (map row_id (rows t))
        \<and> r \<in> set (rows t) \<and> row_id r = i \<longrightarrow>
        update postgres c i body db =
          (Inr (Some \<lparr>doc_id = Some i, doc_created = Some (row_created r),
                      doc_updated = Some (now db), doc_body = Some body\<rparr>),
           db\<lparr>tables := (tables db)(c \<mapsto>
                 t\<lparr>rows := map (\<lambda>x. if row_id x = i
                                      then x\<lparr>row_body := body, row_updated := now db\<rparr> else x)
                                (rows t)\<rparr>)\<rparr>))"
proof -
  have 1: "issued (update (traced pg) c i body (s, [])) =
     [(update_sql c, [(''id'', JNum i), (''body'', body)])]"
    by (simp add: update_def raw_def traced_def issued_def split: prod.splits sum.splits)
  have 2: "\<forall>c'. update_sql c \<noteq> createCollection_sql c'"
    by (simp add: sql_not_create)
  have 3: "update postgres c i body db = (Inl (PgError missing), db)"
    if "is_identifier c" "tables db c = None"
    using that by (simp add: update_def raw_def postgres_update)
  have 4: "update postgres c i body db = (Inr None, db)"
    if c: "is_identifier c" and t: "tables db c = Some t" and i: "i \<notin> row_id ` set (rows t)"
  proof -
    have same: "map (\<lambda>x. if row_id x = i
                        then x\<lparr>row_body := body, row_updated := now db\<rparr> else x) (rows t) = rows t"
      using i by (intro map_idI) auto
    have none: "filter (\<lambda>r. row_id r = i) (rows t) = []"
      using i by (auto simp: filter_empty_conv)
    have "(tables db)(c \<mapsto> t) = tables db"
      using t by (simp add: map_upd_triv)
    then show ?thesis
      using c t by (simp add: update_def raw_def postgres_update same none index0_def)
  qed
  have 5: "update postgres c i body db =
          (Inr (Some \<lparr>doc_id = Some i, doc_created = Some (row_created r),
                      doc_updated = Some (now db), doc_body = Some body\<rparr>),
           db\<lparr>tables := (tables db)(c \<mapsto>
                 t\<lparr>rows := map (\<lambda>x. if row_id x = i
                                      then x\<lparr>row_body := body, row_updated := now db\<rparr> else x)
                                (rows t)\<rparr>)\<rparr>)"
    if c: "is_identifier c" and t: "tables db c = Some t" and d: "distinct (map row_id (rows t))"
      and r: "r \<in> set (rows t)" and i: "row_id r = i"
  proof -
    have "filter (\<lambda>x. row_id x = i) (rows t) = [r]"
      using filter_unique_key [OF d r] i by simp
    then show ?thesis
      using c t i by (simp add: update_def raw_def postgres_update updated_rows index0_def stored_def)
  qed
  show ?thesis using 1 2 3 4 5 by blast
qed

theorem update_replaces_body_without_provisioning_witness:
  "update postgres ''ghosts'' 1 (JObj [(''a'', JNum 9)]) no_tables
     = (Inl (PgError missing), no_tables)
   \<and> update postgres ''users'' 7 (JObj [(''a'', JNum 9)]) users_db = (Inr None, users_db)
   \<and> fst (update postgres ''users'' 2 (JObj [(''a'', JNum 9)]) users_db)
     = Inr (Some \<lparr>doc_id = Some 2, doc_created = Some 5, doc_updated = Some 9,
                  doc_body = Some (JObj [(''a'', JNum 9)])\<rparr>)
   \<and> map_option rows (tables (snd (update postgres ''users'' 2 (JObj [(''a'', JNum 9)]) users_db))
        ''users'')
     = Some [\<lparr>row_id = 2, row_body = JObj [(''a'', JNum 9)], row_created = 5, row_updated = 9\<rparr>,
             \<lparr>row_id = 1, row_body = JObj [(''a'', JNum 1), (''b'', JNum 2)],
              row_created = 4, row_updated = 4\<rparr>,
             \<lparr>row_id = 3, row_body = JObj [(''a'', JNum 2), (''b'', JNum 2)],
              row_created = 7, row_updated = 7\<rparr>]"
proof -
  have c: "is_identifier ''users''" "is_identifier ''ghosts''"
    by (simp_all add: is_identifier_def is_ident_char_def)
  have t: "tables users_db ''users'' = Some \<lparr>rows = users, serial = 4\<rparr>"
    by (simp add: users_db_def)
  note update_replaces_body_without_provisioning [where c = "''ghosts''" and db = no_tables
      and i = 1 and body = "JObj [(''a'', JNum 9)]" and pg = "postgres" and s = no_tables]
    update_replaces_body_without_provisioning [where c = "''users''" and db = users_db
      and i = 7 and body = "JObj [(''a'', JNum 9)]" and t = "\<lparr>rows = users, serial = 4\<rparr>"
      and pg = "postgres" and s = no_tables]
    update_replaces_body_without_provisioning [where c = "''users''" and db = users_db
      and i = 2 and body = "JObj [(''a'', JNum 9)]" and t = "\<lparr>rows = users, serial = 4\<rparr>"
      and r = "hd users" and pg = "postgres" and s = no_tables]
  then show ?thesis
    using c t
    by (simp add: no_tables_def users_def users_db_def)
qed

subsection \<open>The legacy get\<close>

lemma read_select_items:
  "read_select (''*'' @ r) =
     (case read_select (''id, created, updated, *'' @ r) of
        Some (Select items c w ordered limited) \<Rightarrow> Some (Select [Star] c w ordered limited)
      | _ \<Rightarrow> None)"
  by (simp add: read_select_def read_items_def split: option.splits prod.splits)

lemma read_legacy_get_any:
  "read_statement (legacy_get_sql c) =
     (case read_statement (tryGet_sql (propsToColumns None) c) of
        Some (Select items c' w ordered limited) \<Rightarrow> Some (Select [Star] c' w ordered limited)
      | _ \<Rightarrow> None)"
  using read_select_items [of "''\<newline>      from '' @ c @
     ''\<newline>      where id = $[id]\<newline>      limit 1\<newline>    ''"]
  by (simp add: read_statement_def legacy_get_sql_def tryGet_sql_def propsToColumns_def is_space_def)

lemma read_tryGet_any:
  "read_statement (tryGet_sql (propsToColumns None) c) = Some st \<Longrightarrow>
   \<exists>c' w ordered limited.
     st = Select [Column ''id'', Column ''created'', Column ''updated'', Star] c' w ordered limited"
  by (auto simp add: read_statement_def tryGet_sql_def propsToColumns_def is_space_def
        read_select_def read_items_def split: option.splits prod.splits)

lemma postgres_legacy_get_any:
  "postgres (legacy_get_sql c) params db = postgres (tryGet_sql (propsToColumns None) c) params db"
proof (cases "read_statement (tryGet_sql (propsToColumns None) c)")
  case None
  then show ?thesis by (simp add: postgres_def read_legacy_get_any)
next
  case (Some st)
  then obtain c' w ordered limited where
    "st = Select [Column ''id'', Column ''created'', Column ''updated'', Star] c' w ordered limited"
    using read_tryGet_any by blast
  then show ?thesis
    using Some
    by (simp add: postgres_def read_legacy_get_any project_Star project_envelope_Star
          split: option.splits sum.splits)
qed

lemma firstOrNull_take_Suc:
  "firstOrNull (map f (take (Suc 0) xs)) = map_option f (firstOrNull xs)"
  by (cases xs) (simp_all add: firstOrNull_def)

text \<open>
  Claim C9. The legacy \<^verbatim>\<open>get\<close> and the current \<^verbatim>\<open>tryGet\<close> without a list of properties
  send statements that differ in the select list only (\<^verbatim>\<open>*\<close> against
  \<^verbatim>\<open>id, created, updated, *\<close>), which name the same columns; both go through
  \<^verbatim>\<open>queryCollection\<close>. On every database they leave the same state and return the same:
  the document with the id when a row has it, null when none has, null when the table
  does not exist. On any execution layer that answers the two statements alike the
  two operations agree, and an exception with another code than ``table does not
  exist'' is thrown by both as it is.
\<close>

theorem legacy_get_is_tryGet_without_projection:
  fixes pg :: "('s, 'r) pg"
  shows
  "legacy_get postgres c i db = tryGet postgres c i None db
   \<and> (is_identifier c \<and> tables db c = None \<longrightarrow> legacy_get postgres c i db = (Inr None, db))
   \<and> (is_identifier c \<and> tables db c = Some t \<longrightarrow>
        legacy_get postgres c i db =
          (Inr (map_option stored (firstOrNull (filter (\<lambda>r. row_id r = i) (rows t)))), db))
   \<and> (pg (legacy_get_sql c) [(''id'', JNum i)] s
          = pg (tryGet_sql (propsToColumns None) c) [(''id'', JNum i)] s \<longrightarrow>
        legacy_get pg c i s = tryGet pg c i None s)
   \<and> (pg (legacy_get_sql c) [(''id'', JNum i)] s = (Inl e, s')
        \<and> code e \<noteq> Some tableDoesNotExist \<longrightarrow> legacy_get pg c i s = (Inl (PgError e), s'))
   \<and> (pg (tryGet_sql (propsToColumns None) c) [(''id'', JNum i)] s = (Inl e, s')
        \<and> code e \<noteq> Some tableDoesNotExist \<longrightarrow> tryGet pg c i None s = (Inl (PgError e), s'))"
proof -
  have 1: "legacy_get postgres c i db = tryGet postgres c i None db"
    by (simp add: legacy_get_def tryGet_def queryCollection_def postgres_legacy_get_any)
  have 2: "legacy_get postgres c i db = (Inr None, db)"
    if "is_identifier c" "tables db c = None"
    using that
    by (simp add: legacy_get_def queryCollection_def postgres_legacy_get missing_code
          firstOrNull_def)
  have 3: "legacy_get postgres c i db =
          (Inr (map_option stored (firstOrNull (filter (\<lambda>r. row_id r = i) (rows t)))), db)"
    if "is_identifier c" "tables db c = Some t"
    using that
    by (simp add: legacy_get_def queryCollection_def postgres_legacy_get firstOrNull_take_Suc)
  have 4: "legacy_get pg c i s = tryGet pg c i None s"
    if "pg (legacy_get_sql c) [(''id'', JNum i)] s
          = pg (tryGet_sql (propsToColumns None) c) [(''id'', JNum i)] s"
    using that by (simp add: legacy_get_def tryGet_def queryCollection_def)
  have 5: "legacy_get pg c i s = (Inl (PgError e), s')"
    if "pg (legacy_get_sql c) [(''id'', JNum i)] s = (Inl e, s')"
      "code e \<noteq> Some tableDoesNotExist"
    using that by (simp add: legacy_get_def queryCollection_def)
  have 6: "tryGet pg c i None s = (Inl (PgError e), s')"
    if "pg (tryGet_sql (propsToColumns None) c) [(''id'', JNum i)] s = (Inl e, s')"
      "code e \<noteq> Some tableDoesNotExist"
    using that by (simp add: tryGet_def queryCollection_def)
  show ?thesis using 1 2 3 4 5 6 by blast
qed

theorem legacy_get_is_tryGet_without_projection_witness:
  "legacy_get postgres ''ghosts'' 1 no_tables = (Inr None, no_tables)
   \<and> tryGet postgres ''ghosts'' 1 None no_tables = (Inr None, no_tables)
   \<and> legacy_get postgres ''users'' 7 users_db = (Inr None, users_db)
   \<and> tryGet postgres ''users'' 7 None users_db = (Inr None, users_db)
   \<and> legacy_get postgres ''users'' 1 users_db =
       (Inr (Some \<lparr>doc_id = Some 1, doc_created = Some 4, doc_updated = Some 4,
                   doc_body = Some (JObj [(''a'', JNum 1), (''b'', JNum 2)])\<rparr>), users_db)
   \<and> tryGet postgres ''users'' 1 None users_db =
       (Inr (Some \<lparr>doc_id = Some 1, doc_created = Some 4, doc_updated = Some 4,
                   doc_body = Some (JObj [(''a'', JNum 1), (''b'', JNum 2)])\<rparr>), users_db)
   \<and> legacy_get scripted ''users'' 1 [Inl duplicate :: pg_error + json list]
       = (Inl (PgError duplicate), [])
   \<and> tryGet scripted ''users'' 1 None [Inl duplicate :: pg_error + json list]
       = (Inl (PgError duplicate), [])"
proof -
  have c: "is_identifier ''users''" "is_identifier ''ghosts''"
    by (simp_all add: is_identifier_def is_ident_char_def)
  have t: "tables users_db ''users'' = Some \<lparr>rows = users, serial = 4\<rparr>"
    by (simp add: users_db_def)
  note legacy_get_is_tryGet_without_projection [where c = "''ghosts''" and db = no_tables
      and i = 1 and pg = "scripted :: (_, json) pg" and s = "[Inl duplicate]" and e = duplicate
      and s' = "[]"]
    legacy_get_is_tryGet_without_projection [where c = "''users''" and db = users_db
      and i = 7 and t = "\<lparr>rows = users, serial = 4\<rparr>"
      and pg = "scripted :: (_, json) pg" and s = "[Inl duplicate]" and e = duplicate
      and s' = "[]"]
    legacy_get_is_tryGet_without_projection [where c = "''users''" and db = users_db
      and i = 1 and t = "\<lparr>rows = users, serial = 4\<rparr>"
      and pg = "scripted :: (_, json) pg" and s = "[Inl duplicate]" and e = duplicate
      and s' = "[]"]
  then show ?thesis
    using c t
    by (simp add: legacy_get_def tryGet_def queryCollection_def postgres_legacy_get
          postgres_tryGet_star missing_code no_tables_def users_def stored_def
          firstOrNull_def scripted_def duplicate_def tableDoesNotExist_def)
qed

subsection \<open>Projection\<close>

text \<open>
  Claim C4, as stated, fails in two places. An empty array is not falsy in JavaScript,
  so \<^verbatim>\<open>!props\<close> does not hold for it: the empty list of properties is projected like
  any other list and gives the empty body, not the full one. And a name with a single
  quote ends the string literal it is spliced into: the statement is no projection any
  more, here not even a statement.
\<close>

theorem empty_projection_counterexample:
  "propsToColumns None = ''*''
   \<and> propsToColumns (Some []) = ''jsonb_build_object() '' @ [CHR 0x22] @ ''body'' @ [CHR 0x22]
   \<and> tryGet postgres ''users'' 1 None users_db =
       (Inr (Some \<lparr>doc_id = Some 1, doc_created = Some 4, doc_updated = Some 4,
                   doc_body = Some (JObj [(''a'', JNum 1), (''b'', JNum 2)])\<rparr>), users_db)
   \<and> tryGet postgres ''users'' 1 (Some []) users_db =
       (Inr (Some \<lparr>doc_id = Some 1, doc_created = Some 4, doc_updated = Some 4,
                   doc_body = Some (JObj [])\<rparr>), users_db)
   \<and> get postgres ''users'' 1 (Some []) users_db =
       (Inr \<lparr>doc_id = Some 1, doc_created = Some 4, doc_updated = Some 4,
             doc_body = Some (JObj [])\<rparr>, users_db)
   \<and> tryGet postgres ''users'' 1 (Some [''it'' @ [CHR 0x27] @ ''s'']) users_db =
       (Inl (PgError syntax_error), users_db)"
proof -
  have c: "is_identifier ''users''"
    by (simp add: is_identifier_def is_ident_char_def)
  have t: "tables users_db ''users'' = Some \<lparr>rows = users, serial = 4\<rparr>"
    by (simp add: users_db_def)
  have 1: "propsToColumns None = ''*''"
    "propsToColumns (Some []) = ''jsonb_build_object() '' @ [CHR 0x22] @ ''body'' @ [CHR 0x22]"
    by (simp_all add: propsToColumns_def)
  have 2: "tryGet postgres ''users'' 1 None users_db =
       (Inr (Some \<lparr>doc_id = Some 1, doc_created = Some 4, doc_updated = Some 4,
                   doc_body = Some (JObj [(''a'', JNum 1), (''b'', JNum 2)])\<rparr>), users_db)"
    using c t
    by (simp add: tryGet_def queryCollection_def postgres_tryGet_star users_def stored_def
          firstOrNull_def)
  have 3: "tryGet postgres ''users'' 1 (Some []) users_db =
       (Inr (Some \<lparr>doc_id = Some 1, doc_created = Some 4, doc_updated = Some 4,
                   doc_body = Some (JObj [])\<rparr>), users_db)"
    using c t
    by (simp add: tryGet_def queryCollection_def postgres_tryGet_columns users_def projected_def
          firstOrNull_def jsonb_build_object_def)
  have 4: "get postgres ''users'' 1 (Some []) users_db =
       (Inr \<lparr>doc_id = Some 1, doc_created = Some 4, doc_updated = Some 4,
             doc_body = Some (JObj [])\<rparr>, users_db)"
    using 3 by (simp add: get_def)
  have "read_statement (tryGet_sql (propsToColumns (Some [''it'' @ [CHR 0x27] @ ''s''])) ''users'')
          = None"
    by (simp add: read_statement_def tryGet_sql_def propsToColumns_def propColumn_def
          is_space_def read_select_def read_items_def)
  then have 5: "tryGet postgres ''users'' 1 (Some [''it'' @ [CHR 0x27] @ ''s'']) users_db =
       (Inl (PgError syntax_error), users_db)"
    by (simp add: tryGet_def queryCollection_def postgres_def syntax_error_def
          tableDoesNotExist_def)
  show ?thesis using 1 2 3 4 5 by simp
qed

text \<open>
  Claim C4, amended. On a collection that exists, \<^verbatim>\<open>tryGet\<close> without a list of
  properties returns the stored document of the row with the id, with its full body.
  With a list of properties, the empty list included, whose names have no single
  quote, it returns that row's id, \<^verbatim>\<open>created\<close> and \<^verbatim>\<open>updated\<close> and, as \<^verbatim>\<open>body\<close>, an object
  whose keys are exactly the listed names, each with the value stored under it, or
  null when the body has no such key. \<^verbatim>\<open>get\<close> returns the same document, and throws
  \<^verbatim>\<open>MissingRecordError\<close> when no row has the id.
\<close>

theorem projection_returns_requested_keys:
  assumes "is_identifier c" and "tables db c = Some t"
    and "\<forall>p \<in> set ps. CHR 0x27 \<notin> set p"
  shows
  "tryGet postgres c i None db =
     (Inr (map_option stored (firstOrNull (filter (\<lambda>r. row_id r = i) (rows t)))), db)
   \<and> tryGet postgres c i (Some ps) db =
     (Inr (map_option (projected ps) (firstOrNull (filter (\<lambda>r. row_id r = i) (rows t)))), db)
   \<and> get postgres c i None db =
     (case firstOrNull (filter (\<lambda>r. row_id r = i) (rows t)) of
        None \<Rightarrow> Inl (MissingRecordError c (JObj [(''id'', JNum i)]))
      | Some r \<Rightarrow> Inr (stored r), db)
   \<and> get postgres c i (Some ps) db =
     (case firstOrNull (filter (\<lambda>r. row_id r = i) (rows t)) of
        None \<Rightarrow> Inl (MissingRecordError c (JObj [(''id'', JNum i)]))
      | Some r \<Rightarrow> Inr (projected ps r), db)
   \<and> doc_body (stored r) = Some (row_body r)
   \<and> doc_id (projected ps r) = Some (row_id r)
   \<and> doc_created (projected ps r) = Some (row_created r)
   \<and> doc_updated (projected ps r) = Some (row_updated r)
   \<and> (\<exists>kvs. doc_body (projected ps r) = Some (JObj kvs)
         \<and> distinct (map fst kvs)
         \<and> (\<forall>k. map_of kvs k =
              (if k \<in> set ps
               then Some (case json_get (row_body r) k of None \<Rightarrow> JNull | Some v \<Rightarrow> v)
               else None)))"
proof -
  have 1: "tryGet postgres c i None db =
     (Inr (map_option stored (firstOrNull (filter (\<lambda>r. row_id r = i) (rows t)))), db)"
    using assms(1,2)
    by (simp add: tryGet_def queryCollection_def postgres_tryGet_star firstOrNull_take_Suc)
  have 2: "tryGet postgres c i (Some ps) db =
     (Inr (map_option (projected ps) (firstOrNull (filter (\<lambda>r. row_id r = i) (rows t)))), db)"
    using assms
    by (simp add: tryGet_def queryCollection_def postgres_tryGet_columns firstOrNull_take_Suc)
  have 3: "get postgres c i None db =
     (case firstOrNull (filter (\<lambda>r. row_id r = i) (rows t)) of
        None \<Rightarrow> Inl (MissingRecordError c (JObj [(''id'', JNum i)]))
      | Some r \<Rightarrow> Inr (stored r), db)"
    unfolding get_def 1 by (simp split: option.splits)
  have 4: "get postgres c i (Some ps) db =
     (case firstOrNull (filter (\<lambda>r. row_id r = i) (rows t)) of
        None \<Rightarrow> Inl (MissingRecordError c (JObj [(''id'', JNum i)]))
      | Some r \<Rightarrow> Inr (projected ps r), db)"
    unfolding get_def 2 by (simp split: option.splits)
  have 5: "doc_body (stored r) = Some (row_body r)"
    "doc_id (projected ps r) = Some (row_id r)"
    "doc_created (projected ps r) = Some (row_created r)"
    "doc_updated (projected ps r) = Some (row_updated r)"
    by (simp_all add: stored_def projected_def)
  have 6: "\<exists>kvs. doc_body (projected ps r) = Some (JObj kvs)
         \<and> distinct (map fst kvs)
         \<and> (\<forall>k. map_of kvs k =
              (if k \<in> set ps
               then Some (case json_get (row_body r) k of None \<Rightarrow> JNull | Some v \<Rightarrow> v)
               else None))"
    using jsonb_build_object_keys [of "row_body r" ps] by (simp add: projected_def)
  show ?thesis using 1 2 3 4 5 6 by blast
qed

theorem projection_returns_requested_keys_witness:
  "is_identifier ''users'' \<and> tables users_db ''users'' = Some \<lparr>rows = users, serial = 4\<rparr>
   \<and> tryGet postgres ''users'' 2 None users_db =
       (Inr (Some \<lparr>doc_id = Some 2, doc_created = Some 5, doc_updated = Some 6,
                   doc_body = Some (JObj [(''a'', JNum 1), (''b'', JNum 3)])\<rparr>), users_db)
   \<and> tryGet postgres ''users'' 2 (Some [''b'', ''zip code'', ''b'']) users_db =
       (Inr (Some \<lparr>doc_id = Some 2, doc_created = Some 5, doc_updated = Some 6,
                   doc_body = Some (JObj [(''b'', JNum 3), (''zip code'', JNull)])\<rparr>), users_db)
   \<and> get postgres ''users'' 2 (Some [''b'']) users_db =
       (Inr \<lparr>doc_id = Some 2, doc_created = Some 5, doc_updated = Some 6,
             doc_body = Some (JObj [(''b'', JNum 3)])\<rparr>, users_db)
   \<and> get postgres ''users'' 7 (Some [''b'']) users_db =
       (Inl (MissingRecordError ''users'' (JObj [(''id'', JNum 7)])), users_db)"
proof -
  have c: "is_identifier ''users''"
    by (simp add: is_identifier_def is_ident_char_def)
  have t: "tables users_db ''users'' = Some \<lparr>rows = users, serial = 4\<rparr>"
    by (simp add: users_db_def)
  have q: "\<forall>p \<in> set [''b'', ''zip code'', ''b'']. CHR 0x27 \<notin> set p"
    "\<forall>p \<in> set [''b'']. CHR 0x27 \<notin> set p"
    by simp_all
  note projection_returns_requested_keys [OF c t q(1), of 2]
    projection_returns_requested_keys [OF c t q(2), of 2]
    projection_returns_requested_keys [OF c t q(2), of 7]
  then show ?thesis
    using c t
    by (simp add: users_def stored_def projected_def firstOrNull_def jsonb_build_object_def
          json_get_def)
qed

subsection \<open>The names of the projected properties in the statement\<close>

lemma count_list_join:
  "count_list sep a = 0 \<Longrightarrow>
   count_list (join sep xs) a = sum_list (map (\<lambda>x. count_list x a) xs)"
  by (induction sep xs rule: join.induct) simp_all

lemma sublist_join:
  "x \<in> set xs \<Longrightarrow> sublist x (join sep xs)"
proof (induction sep xs rule: join.induct)
  case (1 sep)
  then show ?case by simp
next
  case (2 sep y)
  then show ?case by simp
next
  case (3 sep y z zs)
  show ?case
  proof (cases "x = y")
    case True
    then show ?thesis by simp
  next
    case False
    then have "sublist x (join sep (z # zs))" using 3 by simp
    then have "sublist x ((y @ sep) @ join sep (z # zs))"
      by (meson sublist_append_leftI sublist_order.order.trans)
    then show ?thesis by simp
  qed
qed

lemma split_on_pieces: "x \<in> set (split_on d s) \<Longrightarrow> d \<notin> set x"
  by (induction s arbitrary: x) (auto split: if_splits list.splits)

lemma read_fields_keys:
  "read_fields start pieces = Some (fs, rest) \<Longrightarrow> (k, path) \<in> set fs \<Longrightarrow> k \<in> set pieces"
  by (induction start pieces arbitrary: fs rest rule: read_fields.induct)
     (auto split: if_splits option.splits)

lemma read_items_keys:
  assumes "read_items s = Some (items, r)" and "JsonbBuildObject fs alias \<in> set items"
    and "(k, path) \<in> set fs"
  shows "CHR 0x27 \<notin> set k"
proof -
  obtain pieces start rest where "read_fields start (split_on (CHR 0x27) pieces) = Some (fs, rest)"
    using assms(1,2)
    by (auto simp add: read_items_def split: option.splits)
  then have "k \<in> set (split_on (CHR 0x27) pieces)"
    using assms(3) read_fields_keys by blast
  then show ?thesis by (rule split_on_pieces)
qed

lemma read_statement_keys:
  assumes "read_statement query = Some (Select items c w ordered limited)"
    and "JsonbBuildObject fs alias \<in> set items" and "(k, path) \<in> set fs"
  shows "CHR 0x27 \<notin> set k"
proof -
  obtain s r where "read_items s = Some (items, r)"
    using assms(1)
    by (auto simp add: read_statement_def read_select_def read_insert_def read_update_def
          read_create_def Let_def split: option.splits if_splits)
  then show ?thesis using assms(2,3) read_items_keys by blast
qed

text \<open>
  Claim C10. The column text of a list of properties is the fixed pieces of the
  template with every name copied between them as it is, twice, inside single quotes;
  so every name stands in the statement of \<^verbatim>\<open>tryGet\<close> character for character, every
  single quote of a name is a single quote of the statement (nothing is doubled or
  escaped), and the one value bound to the statement is the id. With names free of
  single quotes the execution layer reads the statement as the projection onto the
  names. With a single quote in a name it does not: whatever it reads, no key of a
  \<^verbatim>\<open>jsonb_build_object\<close> has a single quote.
\<close>

theorem field_names_spliced_verbatim:
  fixes pg :: "('s, 'r) pg"
  shows
  "propsToColumns (Some ps) =
     ''jsonb_build_object('' @
     join '', '' (map (\<lambda>p. ''\<newline>    '' @ [CHR 0x27] @ p @ [CHR 0x27] @ '', body->'' @
                            [CHR 0x27] @ p @ [CHR 0x27] @ ''\<newline>  '') ps) @
     '') '' @ [CHR 0x22] @ ''body'' @ [CHR 0x22]
   \<and> (\<forall>p \<in> set ps.
        sublist ([CHR 0x27] @ p @ [CHR 0x27] @ '', body->'' @ [CHR 0x27] @ p @ [CHR 0x27])
          (tryGet_sql (propsToColumns (Some ps)) c))
   \<and> count_list (propsToColumns (Some ps)) (CHR 0x27) =
       4 * length ps + 2 * sum_list (map (\<lambda>p. count_list p (CHR 0x27)) ps)
   \<and> issued (tryGet (traced pg) c i (Some ps) (s, [])) =
       [(tryGet_sql (propsToColumns (Some ps)) c, [(''id'', JNum i)])]
   \<and> (is_identifier c \<and> (\<forall>p \<in> set ps. CHR 0x27 \<notin> set p) \<longrightarrow>
        read_statement (tryGet_sql (propsToColumns (Some ps)) c) =
          Some (Select [Column ''id'', Column ''created'', Column ''updated'',
                        JsonbBuildObject (map (\<lambda>p. (p, p)) ps) ''body''] c IdEquals False True))
   \<and> ((\<exists>p \<in> set ps. CHR 0x27 \<in> set p) \<longrightarrow>
        read_statement (tryGet_sql (propsToColumns (Some ps)) c) \<noteq>
          Some (Select [Column ''id'', Column ''created'', Column ''updated'',
                        JsonbBuildObject (map (\<lambda>p. (p, p)) ps) ''body''] c IdEquals False True))"
proof -
  have 1: "propsToColumns (Some ps) =
     ''jsonb_build_object('' @
     join '', '' (map (\<lambda>p. ''\<newline>    '' @ [CHR 0x27] @ p @ [CHR 0x27] @ '', body->'' @
                            [CHR 0x27] @ p @ [CHR 0x27] @ ''\<newline>  '') ps) @
     '') '' @ [CHR 0x22] @ ''body'' @ [CHR 0x22]"
    by (simp add: propsToColumns_def propColumn_def [abs_def])
  have 2: "sublist ([CHR 0x27] @ p @ [CHR 0x27] @ '', body->'' @ [CHR 0x27] @ p @ [CHR 0x27])
          (tryGet_sql (propsToColumns (Some ps)) c)" if p: "p \<in> set ps" for p
  proof -
    let ?x = "[CHR 0x27] @ p @ [CHR 0x27] @ '', body->'' @ [CHR 0x27] @ p @ [CHR 0x27]"
    have "propColumn p = ''\<newline>    '' @ ?x @ ''\<newline>  ''"
      by (simp add: propColumn_def)
    then have "sublist ?x (propColumn p)"
      by (metis sublist_appendI)
    moreover have "sublist (propColumn p) (join '', '' (map propColumn ps))"
      using p by (intro sublist_join) simp
    moreover have "sublist (join '', '' (map propColumn ps)) (propsToColumns (Some ps))"
      unfolding propsToColumns_def option.case by (rule sublist_appendI)
    moreover have "sublist (propsToColumns (Some ps)) (tryGet_sql (propsToColumns (Some ps)) c)"
      unfolding tryGet_sql_def by (rule sublist_appendI)
    ultimately show ?thesis
      by (meson sublist_order.order.trans)
  qed
  have "count_list (propColumn p) (CHR 0x27) = 4 + 2 * count_list p (CHR 0x27)" for p
    by (simp add: propColumn_def)
  then have 3: "count_list (propsToColumns (Some ps)) (CHR 0x27) =
       4 * length ps + 2 * sum_list (map (\<lambda>p. count_list p (CHR 0x27)) ps)"
    by (simp add: propsToColumns_def count_list_join comp_def sum_list_addf sum_list_const_mult
          sum_list_triv)
  have 4: "issued (tryGet (traced pg) c i (Some ps) (s, [])) =
       [(tryGet_sql (propsToColumns (Some ps)) c, [(''id'', JNum i)])]"
    by (simp add: tryGet_def issued_def queryCollection_issued split: prod.splits sum.splits)
      (auto dest: queryCollection_issuedD)
  have 5: "read_statement (tryGet_sql (propsToColumns (Some ps)) c) =
          Some (Select [Column ''id'', Column ''created'', Column ''updated'',
                        JsonbBuildObject (map (\<lambda>p. (p, p)) ps) ''body''] c IdEquals False True)"
    if "is_identifier c" "\<forall>p \<in> set ps. CHR 0x27 \<notin> set p"
    using that by (rule read_tryGet_columns)
  have 6: "read_statement (tryGet_sql (propsToColumns (Some ps)) c) \<noteq>
          Some (Select [Column ''id'', Column ''created'', Column ''updated'',
                        JsonbBuildObject (map (\<lambda>p. (p, p)) ps) ''body''] c IdEquals False True)"
    if quoted: "\<exists>p \<in> set ps. CHR 0x27 \<in> set p"
  proof
    assume r: "read_statement (tryGet_sql (propsToColumns (Some ps)) c) =
          Some (Select [Column ''id'', Column ''created'', Column ''updated'',
                        JsonbBuildObject (map (\<lambda>p. (p, p)) ps) ''body''] c IdEquals False True)"
    obtain p where p: "p \<in> set ps" "CHR 0x27 \<in> set p" using quoted by blast
    have "(p, p) \<in> set (map (\<lambda>p. (p, p)) ps)" using p(1) by auto
    then have "CHR 0x27 \<notin> set p"
      using read_statement_keys [OF r, of "map (\<lambda>p. (p, p)) ps" "''body''" p p] by simp
    then show False using p(2) by simp
  qed
  show ?thesis using 1 2 3 4 5 6 by blast
qed

theorem field_names_spliced_verbatim_witness:
  "is_identifier ''users''
   \<and> read_statement (tryGet_sql (propsToColumns (Some [''a'', ''zip code''])) ''users'') =
       Some (Select [Column ''id'', Column ''created'', Column ''updated'',
                     JsonbBuildObject [(''a'', ''a''), (''zip code'', ''zip code'')] ''body'']
               ''users'' IdEquals False True)
   \<and> propsToColumns (Some [''it'' @ [CHR 0x27] @ ''s'']) =
       ''jsonb_build_object(\<newline>    '' @ [CHR 0x27] @ ''it'' @ [CHR 0x27] @ ''s'' @ [CHR 0x27] @
       '', body->'' @ [CHR 0x27] @ ''it'' @ [CHR 0x27] @ ''s'' @ [CHR 0x27] @ ''\<newline>  ) '' @
       [CHR 0x22] @ ''body'' @ [CHR 0x22]
   \<and> count_list (propsToColumns (Some [''it'' @ [CHR 0x27] @ ''s''])) (CHR 0x27) = 6
   \<and> read_statement (tryGet_sql (propsToColumns (Some [''it'' @ [CHR 0x27] @ ''s''])) ''users'')
       = None"
proof -
  have c: "is_identifier ''users''"
    by (simp add: is_identifier_def is_ident_char_def)
  note field_names_spliced_verbatim [where ps = "[''a'', ''zip code'']" and c = "''users''"
      and pg = "scripted :: (_, json) pg" and s = "[]" and i = 1]
    field_names_spliced_verbatim [where ps = "[''it'' @ [CHR 0x27] @ ''s'']" and c = "''users''"
      and pg = "scripted :: (_, json) pg" and s = "[]" and i = 1]
  then show ?thesis
    using c
    by (simp add: read_statement_def tryGet_sql_def propsToColumns_def propColumn_def
          is_space_def read_select_def read_items_def)
qed

end
